theory Spec2Isabelle
  imports Complex_Main "HOL-Library.Char_ord" "HOL-Library.List_Lexorder"
begin

section \<open>Python strings\<close>

text \<open>
  Strings are lists of bytes, the UTF-8 encoding of Python's text. The case conversions
  \<open>str.lower\<close>, \<open>str.upper\<close> and \<open>str.title\<close> are modelled on ASCII text: a
  byte outside ASCII is left as it is and does not count as a letter.
\<close>

definition is_upper :: "char \<Rightarrow> bool" where
  "is_upper c = (let n = (of_char c :: nat) in 65 \<le> n \<and> n \<le> 90)"

definition is_lower :: "char \<Rightarrow> bool" where
  "is_lower c = (let n = (of_char c :: nat) in 97 \<le> n \<and> n \<le> 122)"

definition lower_char :: "char \<Rightarrow> char" where
  "lower_char c = (if is_upper c then char_of ((of_char c :: nat) + 32) else c)"

definition upper_char :: "char \<Rightarrow> char" where
  "upper_char c = (if is_lower c then char_of ((of_char c :: nat) - 32) else c)"

definition startswith :: "string \<Rightarrow> string \<Rightarrow> bool" where
  "startswith s p = (take (length p) s = p)"

text \<open>
  The characters \<open>str.strip\<close> removes, each in UTF-8: the ASCII white space (U+0009 to
  U+000D, U+001C to U+0020), U+0085, U+00A0, U+1680, U+2000 to U+200A, U+2028, U+2029,
  U+202F, U+205F and U+3000.
\<close>

definition whitespace :: "string list" where
  "whitespace =
     map (\<lambda>c. [c]) [CHR 0x09, CHR 0x0A, CHR 0x0B, CHR 0x0C, CHR 0x0D,
                     CHR 0x1C, CHR 0x1D, CHR 0x1E, CHR 0x1F, CHR 0x20]
     @ [[CHR 0xC2, CHR 0x85], [CHR 0xC2, CHR 0xA0], [CHR 0xE1, CHR 0x9A, CHR 0x80]]
     @ map (\<lambda>c. [CHR 0xE2, CHR 0x80, c])
           [CHR 0x80, CHR 0x81, CHR 0x82, CHR 0x83, CHR 0x84, CHR 0x85, CHR 0x86, CHR 0x87,
            CHR 0x88, CHR 0x89, CHR 0x8A, CHR 0xA8, CHR 0xA9, CHR 0xAF]
     @ [[CHR 0xE2, CHR 0x81, CHR 0x9F], [CHR 0xE3, CHR 0x80, CHR 0x80]]"

text \<open>
  \<open>strip_left ws s\<close> removes from the front of \<open>s\<close> every sequence of \<open>ws\<close>, each
  of one, two or three bytes. The end of a string is stripped on the reversed string with
  the reversed sequences: a sequence begins with the first byte of its character, so a
  match at the end is a whole character.
\<close>

fun strip_left :: "string list \<Rightarrow> string \<Rightarrow> string" where
  "strip_left ws [] = []"
| "strip_left ws [a] = (if [a] \<in> set ws then [] else [a])"
| "strip_left ws [a, b] =
     (if [a] \<in> set ws then strip_left ws [b]
      else if [a, b] \<in> set ws then [] else [a, b])"
| "strip_left ws (a # b # c # s) =
     (if [a] \<in> set ws then strip_left ws (b # c # s)
      else if [a, b] \<in> set ws then strip_left ws (c # s)
      else if [a, b, c] \<in> set ws then strip_left ws s
      else a # b # c # s)"

definition strip :: "string \<Rightarrow> string" where
  "strip s = rev (strip_left (map rev whitespace) (rev (strip_left whitespace s)))"

definition lower :: "string \<Rightarrow> string" where
  "lower s = map lower_char s"

definition upper :: "string \<Rightarrow> string" where
  "upper s = map upper_char s"

text \<open>
  \<open>str.title\<close>: a letter that follows a letter is lowered, any other letter is raised;
  the flag says whether the previous character was a letter.
\<close>

fun title_from :: "bool \<Rightarrow> string \<Rightarrow> string" where
  "title_from prev [] = []"
| "title_from prev (c # cs) =
     (if is_upper c \<or> is_lower c
      then (if prev then lower_char c else upper_char c) # title_from True cs
      else c # title_from False cs)"

definition title :: "string \<Rightarrow> string" where
  "title s = title_from False s"

text \<open>\<open>contains s sub\<close> is Python's \<open>sub in s\<close>.\<close>

fun contains :: "string \<Rightarrow> string \<Rightarrow> bool" where
  "contains [] sub = (sub = [])"
| "contains (c # cs) sub = (startswith (c # cs) sub \<or> contains cs sub)"

section \<open>Cells, columns and tables\<close>

text \<open>
  A cell of a table is missing (\<open>NaN\<close>, \<open>NaT\<close> and \<open>pd.NA\<close> are one value, the one
  \<open>isna\<close> recognises), a number, a string, a timestamp (year, month, day) or a monthly
  period (year, month). Numbers are exact and finite: rationals stand for the floats of
  the library, so the rounding error of floats and infinite values are not part of the
  model.
\<close>

type_synonym date = "nat \<times> nat \<times> nat"

datatype cell = NA | Num rat | Str string | TS date | Per "nat \<times> nat"

definition isna :: "cell \<Rightarrow> bool" where
  "isna c = (c = NA)"

definition notna :: "cell \<Rightarrow> bool" where
  "notna c = (c \<noteq> NA)"

datatype pd_error = KeyError string | NotASeries string | TypeError | IndexError | InvalidIndexError

text \<open>The first exception of a list of results, or all the values.\<close>

fun collect :: "('e + 'a) list \<Rightarrow> 'e + 'a list" where
  "collect [] = Inr []"
| "collect (Inl e # rs) = Inl e"
| "collect (Inr x # rs) = (case collect rs of Inl e \<Rightarrow> Inl e | Inr xs \<Rightarrow> Inr (x # xs))"

section \<open>Tables\<close>

text \<open>
  A table (a \<open>DataFrame\<close>) is its number of rows and its columns in order, each a label
  with its cells. Labels may repeat: the normalizer trims the labels it is given, which can
  make two of them equal.
\<close>

record frame =
  nrows :: nat
  cols :: "(string \<times> cell list) list"

definition columns :: "frame \<Rightarrow> string list" where
  "columns df = map fst (cols df)"

text \<open>
  \<open>df[c]\<close> read as one column. An absent label raises \<open>KeyError\<close>. Under a repeated
  label \<open>df[c]\<close> is a table, not a column, and the calls the pages make on it
  (\<open>pd.to_datetime\<close>, \<open>pd.to_numeric\<close>, \<open>.str\<close>, storing it under one label) raise.
\<close>

definition getcol :: "frame \<Rightarrow> string \<Rightarrow> pd_error + cell list" where
  "getcol df c =
     (case filter (\<lambda>p. fst p = c) (cols df) of
        [] \<Rightarrow> Inl (KeyError c)
      | [p] \<Rightarrow> Inr (snd p)
      | p # q # ps \<Rightarrow> Inl (NotASeries c))"

text \<open>
  \<open>df[c] = xs\<close>: every column labelled \<open>c\<close> is replaced; a new label is appended.
\<close>

definition setcol :: "frame \<Rightarrow> string \<Rightarrow> cell list \<Rightarrow> frame" where
  "setcol df c xs =
     (if c \<in> set (columns df)
      then df\<lparr>cols := map (\<lambda>p. if fst p = c then (c, xs) else p) (cols df)\<rparr>
      else df\<lparr>cols := cols df @ [(c, xs)]\<rparr>)"

text \<open>\<open>df[c] = v\<close> for a scalar \<open>v\<close>: the value in every row.\<close>

definition setconst :: "frame \<Rightarrow> string \<Rightarrow> cell \<Rightarrow> frame" where
  "setconst df c v = setcol df c (replicate (nrows df) v)"

section \<open>The library's conversions\<close>

text \<open>
  What pandas makes of one cell that is neither missing nor already of the target type is a
  parameter of the model: the number \<open>pd.to_numeric\<close> reads from it, the date
  \<open>pd.to_datetime\<close> reads from it (both with \<open>errors="coerce"\<close>, so a failure is a
  missing value and never an exception), and the text \<open>astype(str)\<close> gives for it.
  The repository pins no version of pandas, and \<open>astype(str)\<close> of a missing cell
  depends on it: the text \<open>nan\<close> in pandas 2 (\<open>na_as_text\<close>), a missing cell still in
  pandas 3. The arithmetic of floats is a parameter as well: the sum, difference, product
  and quotient of two finite floats as the machine rounds them, and \<open>round(2)\<close>.
\<close>

record pandas =
  number_of :: "cell \<Rightarrow> rat option"
  date_of :: "cell \<Rightarrow> date option"
  text_of :: "cell \<Rightarrow> string"
  na_as_text :: bool
  float_add :: "rat \<Rightarrow> rat \<Rightarrow> rat"
  float_sub :: "rat \<Rightarrow> rat \<Rightarrow> rat"
  float_mul :: "rat \<Rightarrow> rat \<Rightarrow> rat"
  float_div :: "rat \<Rightarrow> rat \<Rightarrow> rat"
  float_round2 :: "rat \<Rightarrow> rat"

definition to_numeric :: "pandas \<Rightarrow> cell \<Rightarrow> cell" where
  "to_numeric L c =
     (case c of
        NA \<Rightarrow> NA
      | Num q \<Rightarrow> Num q
      | _ \<Rightarrow> (case number_of L c of None \<Rightarrow> NA | Some q \<Rightarrow> Num q))"

definition to_datetime :: "pandas \<Rightarrow> cell \<Rightarrow> cell" where
  "to_datetime L c =
     (case c of
        NA \<Rightarrow> NA
      | TS d \<Rightarrow> TS d
      | _ \<Rightarrow> (case date_of L c of None \<Rightarrow> NA | Some d \<Rightarrow> TS d))"

definition astype_str :: "pandas \<Rightarrow> cell \<Rightarrow> cell" where
  "astype_str L c =
     (case c of
        Str s \<Rightarrow> Str s
      | NA \<Rightarrow> (if na_as_text L then Str ''nan'' else NA)
      | _ \<Rightarrow> Str (text_of L c))"

text \<open>
  A method of the accessor \<open>.str\<close> on one cell of a column of texts: a missing cell
  stays missing.
\<close>

definition str_map :: "(string \<Rightarrow> string) \<Rightarrow> cell \<Rightarrow> cell" where
  "str_map f c = (case c of Str s \<Rightarrow> Str (f s) | _ \<Rightarrow> NA)"

text \<open>\<open>.dt.to_period("M")\<close> on a column of timestamps.\<close>

definition to_period_M :: "cell \<Rightarrow> cell" where
  "to_period_M c = (case c of TS (y, m, d) \<Rightarrow> Per (y, m) | _ \<Rightarrow> NA)"

text \<open>Rounding to the nearest integer, a half to the even neighbour (\<open>round\<close>).\<close>

definition py_round :: "rat \<Rightarrow> int" where
  "py_round q =
     (let f = \<lfloor>q\<rfloor>; d = q - of_int f in
      if d < 1 / 2 then f else if 1 / 2 < d then f + 1 else if even f then f else f + 1)"

fun numbers :: "cell list \<Rightarrow> rat list" where
  "numbers [] = []"
| "numbers (Num q # cs) = q # numbers cs"
| "numbers (c # cs) = numbers cs"

text \<open>\<open>Series.median\<close> of a non-empty column of numbers.\<close>

definition median :: "pandas \<Rightarrow> rat list \<Rightarrow> rat" where
  "median L xs =
     (let s = sort xs; n = length s in
      if odd n then s ! (n div 2)
      else float_div L (float_add L (s ! (n div 2 - 1)) (s ! (n div 2))) 2)"

section \<open>Step 1: validate\_and\_normalize\<close>

record vn_result =
  table :: "frame option"
  errors :: "string list"
  warnings :: "string list"
  missing_report :: "(string \<times> nat) list"
  date_for_month :: "string option"

definition recognized_date_cols :: "string list" where
  "recognized_date_cols = [''admission_date'', ''discharge_date'', ''death_date'']"

definition minimal_candidates :: "string list" where
  "minimal_candidates = [''admission_date'', ''outcome'', ''primary_diagnosis'']"

definition minimal_error :: string where
  "minimal_error = ''File must contain at least one of the minimal columns: admission_date, outcome, primary_diagnosis''"

definition age_warning :: string where
  "age_warning = ''No recognizable age columns found (age_days, age_months, age_years)''"

text \<open>Line 75: \<open>df.columns = [str(c).strip() for c in df.columns]\<close>.\<close>

definition strip_columns :: "frame \<Rightarrow> frame" where
  "strip_columns df = df\<lparr>cols := map (\<lambda>p. (strip (fst p), snd p)) (cols df)\<rparr>"

fun col_exists_any :: "frame \<Rightarrow> string list \<Rightarrow> string option" where
  "col_exists_any df [] = None"
| "col_exists_any df (n # ns) =
     (if n \<in> set (columns df) then Some n else col_exists_any df ns)"

text \<open>Lines 83 to 85: the date columns that exist are parsed, in order.\<close>

fun parse_dates :: "pandas \<Rightarrow> string list \<Rightarrow> frame \<Rightarrow> pd_error + frame" where
  "parse_dates L [] df = Inr df"
| "parse_dates L (c # cs) df =
     (if c \<in> set (columns df)
      then (case getcol df c of
              Inl e \<Rightarrow> Inl e
            | Inr xs \<Rightarrow> parse_dates L cs (setcol df c (map (to_datetime L) xs)))
      else parse_dates L cs df)"

text \<open>
  \<open>(pd.to_numeric(col, errors="coerce") * k).round().astype("Int64")\<close>: a cell that is
  not a number stays missing, and the cast raises \<open>TypeError\<close> for a value that is not
  a 64-bit integer.
\<close>

definition int64 :: "int \<Rightarrow> bool" where
  "int64 v = (- (2 ^ 63) \<le> v \<and> v < 2 ^ 63)"

definition scale_cell :: "pandas \<Rightarrow> rat \<Rightarrow> cell \<Rightarrow> pd_error + cell" where
  "scale_cell L k c =
     (case to_numeric L c of
        Num q \<Rightarrow> if int64 (py_round (float_mul L q k))
                 then Inr (Num (of_int (py_round (float_mul L q k))))
                 else Inl TypeError
      | _ \<Rightarrow> Inr NA)"

definition scale_days :: "pandas \<Rightarrow> rat \<Rightarrow> cell list \<Rightarrow> pd_error + cell list" where
  "scale_days L k xs = collect (map (scale_cell L k) xs)"

text \<open>
  Lines 88 to 110. The result is the table and \<open>age_days_col\<close>. Under \<open>age\<close> the work
  is inside \<open>try ... except Exception: pass\<close>, so a failure there (a repeated label, a
  cast that raises) leaves the table as it was; under \<open>age_months\<close> and \<open>age_years\<close>
  the exception leaves the function.
\<close>

definition derive_age :: "pandas \<Rightarrow> frame \<Rightarrow> pd_error + (frame \<times> string option)" where
  "derive_age L df =
     (if ''age_days'' \<in> set (columns df) then Inr (df, Some ''age_days'')
      else if ''age'' \<in> set (columns df) then
        (case getcol df ''age'' of
           Inl e \<Rightarrow> Inr (df, None)
         | Inr xs \<Rightarrow>
             (let sample = numbers (map (to_numeric L) xs) in
              if sample = [] then Inr (df, None)
              else
                (let med = median L sample in
                 if med \<le> 30
                 then Inr (setcol df ''age_days'' (map (to_numeric L) xs), Some ''age_days'')
                 else if med < 100
                 then (case scale_days L 30 xs of
                         Inl e \<Rightarrow> Inr (df, None)
                       | Inr ys \<Rightarrow> Inr (setcol df ''age_days'' ys, Some ''age_days''))
                 else (case scale_days L 365 xs of
                         Inl e \<Rightarrow> Inr (df, None)
                       | Inr ys \<Rightarrow> Inr (setcol df ''age_days'' ys, Some ''age_days'')))))
      else if ''age_months'' \<in> set (columns df) then
        (case getcol df ''age_months'' of
           Inl e \<Rightarrow> Inl e
         | Inr xs \<Rightarrow>
             (case scale_days L 30 xs of
                Inl e \<Rightarrow> Inl e
              | Inr ys \<Rightarrow> Inr (setcol df ''age_days'' ys, Some ''age_days'')))
      else if ''age_years'' \<in> set (columns df) then
        (case getcol df ''age_years'' of
           Inl e \<Rightarrow> Inl e
         | Inr xs \<Rightarrow>
             (case scale_days L 365 xs of
                Inl e \<Rightarrow> Inl e
              | Inr ys \<Rightarrow> Inr (setcol df ''age_days'' ys, Some ''age_days'')))
      else Inr (df, None))"

text \<open>
  Lines 116 and 117: trimmed, upper-cased, \<open>MALE\<close> and \<open>FEMALE\<close> replaced, and
  everything but \<open>M\<close> and \<open>F\<close> replaced by \<open>Unknown\<close>.
\<close>

definition sex_norm_of :: "pandas \<Rightarrow> cell \<Rightarrow> cell" where
  "sex_norm_of L c =
     (let s = str_map upper (str_map strip (astype_str L c));
          r = (if s = Str ''MALE'' then Str ''M'' else if s = Str ''FEMALE'' then Str ''F'' else s)
      in if r = Str ''M'' \<or> r = Str ''F'' then r else Str ''Unknown'')"

definition normalize_sex :: "pandas \<Rightarrow> frame \<Rightarrow> pd_error + (frame \<times> string list)" where
  "normalize_sex L df =
     (if ''sex'' \<in> set (columns df)
      then (case getcol df ''sex'' of
              Inl e \<Rightarrow> Inl e
            | Inr xs \<Rightarrow> Inr (setcol df ''sex_norm'' (map (sex_norm_of L) xs), []))
      else Inr (setconst df ''sex_norm'' (Str ''Unknown''),
                [''No sex column found; created sex_norm = Unknown'']))"

text \<open>
  Lines 124 to 126: the lambda mapped over the trimmed, lower-cased outcome. On a cell
  that is still missing, \<open>"dead" in x\<close> raises \<open>TypeError\<close>.
\<close>

definition outcome_lambda :: "cell \<Rightarrow> pd_error + cell" where
  "outcome_lambda c =
     (case c of
        Str x \<Rightarrow>
          Inr (Str (if contains x ''dead'' \<or> startswith x ''d'' then ''Dead''
                    else if contains x ''alive'' \<or> startswith x ''a'' then ''Alive''
                    else title x))
      | _ \<Rightarrow> Inl TypeError)"

definition outcome_norm_of :: "pandas \<Rightarrow> cell \<Rightarrow> pd_error + cell" where
  "outcome_norm_of L c = outcome_lambda (str_map lower (str_map strip (astype_str L c)))"

definition normalize_outcome :: "pandas \<Rightarrow> frame \<Rightarrow> pd_error + (frame \<times> string list)" where
  "normalize_outcome L df =
     (if ''outcome'' \<in> set (columns df)
      then (case getcol df ''outcome'' of
              Inl e \<Rightarrow> Inl e
            | Inr xs \<Rightarrow>
                (case collect (map (outcome_norm_of L) xs) of
                   Inl e \<Rightarrow> Inl e
                 | Inr ys \<Rightarrow> Inr (setcol df ''outcome_norm'' ys, [])))
      else Inr (setconst df ''outcome_norm'' NA,
                [''No outcome column found. Please add outcome (Alive/Dead)'']))"

text \<open>Lines 132 to 139.\<close>

definition fill_diagnosis :: "pandas \<Rightarrow> frame \<Rightarrow> pd_error + (frame \<times> string list)" where
  "fill_diagnosis L df =
     (if ''primary_diagnosis'' \<notin> set (columns df)
      then (case col_exists_any df [''diagnosis'', ''dx'', ''primary_dx''] of
              Some alt \<Rightarrow>
                (case getcol df alt of
                   Inl e \<Rightarrow> Inl e
                 | Inr xs \<Rightarrow>
                     Inr (setcol df ''primary_diagnosis'' (map (astype_str L) xs),
                          [''Mapped diagnosis column '' @ [CHR 0x27] @ alt @ [CHR 0x27]
                             @ '' to primary_diagnosis'']))
            | None \<Rightarrow>
                Inr (setconst df ''primary_diagnosis'' (Str ''UNKNOWN''),
                     [''No primary_diagnosis found. Filled as UNKNOWN'']))
      else Inr (df, []))"

text \<open>
  Lines 142 to 151: \<open>col in df.columns and df[col].notna().any()\<close>, then the month of
  that column. The result is the table, the warnings and \<open>date_for_month\<close>.
\<close>

definition usable_date :: "frame \<Rightarrow> string \<Rightarrow> pd_error + bool" where
  "usable_date df c =
     (if c \<in> set (columns df)
      then (case getcol df c of Inl e \<Rightarrow> Inl e | Inr xs \<Rightarrow> Inr (list_ex notna xs))
      else Inr False)"

definition month_from :: "frame \<Rightarrow> string \<Rightarrow> pd_error + (frame \<times> string list \<times> string option)" where
  "month_from df c =
     (case getcol df c of
        Inl e \<Rightarrow> Inl e
      | Inr xs \<Rightarrow> Inr (setcol df ''month'' (map to_period_M xs), [], Some c))"

definition derive_month :: "frame \<Rightarrow> pd_error + (frame \<times> string list \<times> string option)" where
  "derive_month df =
     (case usable_date df ''admission_date'' of
        Inl e \<Rightarrow> Inl e
      | Inr True \<Rightarrow> month_from df ''admission_date''
      | Inr False \<Rightarrow>
          (case usable_date df ''death_date'' of
             Inl e \<Rightarrow> Inl e
           | Inr True \<Rightarrow> month_from df ''death_date''
           | Inr False \<Rightarrow>
               Inr (setconst df ''month'' NA, [''No usable date to derive month''], None)))"

text \<open>Line 153: \<open>df.isna().sum()\<close>, the number of missing cells of each column.\<close>

definition isna_sum :: "frame \<Rightarrow> (string \<times> nat) list" where
  "isna_sum df = map (\<lambda>p. (fst p, length (filter isna (snd p)))) (cols df)"

definition validate_and_normalize :: "pandas \<Rightarrow> frame \<Rightarrow> pd_error + vn_result" where
  "validate_and_normalize L raw =
     (let df = strip_columns raw in
      if \<not> list_ex (\<lambda>c. c \<in> set (columns df)) minimal_candidates
      then Inr \<lparr>table = None, errors = [minimal_error], warnings = [],
                missing_report = [], date_for_month = None\<rparr>
      else
       (case parse_dates L recognized_date_cols df of Inl e \<Rightarrow> Inl e | Inr df1 \<Rightarrow>
       (case derive_age L df1 of Inl e \<Rightarrow> Inl e | Inr (df2, age_days_col) \<Rightarrow>
       (case normalize_sex L df2 of Inl e \<Rightarrow> Inl e | Inr (df3, w_sex) \<Rightarrow>
       (case normalize_outcome L df3 of Inl e \<Rightarrow> Inl e | Inr (df4, w_outcome) \<Rightarrow>
       (case fill_diagnosis L df4 of Inl e \<Rightarrow> Inl e | Inr (df5, w_diagnosis) \<Rightarrow>
       (case derive_month df5 of Inl e \<Rightarrow> Inl e | Inr (df6, w_month, dfm) \<Rightarrow>
          Inr \<lparr>table = Some df6, errors = [],
               warnings = (if age_days_col = None then [age_warning] else [])
                          @ w_sex @ w_outcome @ w_diagnosis @ w_month,
               missing_report = isna_sum df6, date_for_month = dfm\<rparr>)))))))"

text \<open>
  Lines 185 to 194: what the page keeps in the session as \<open>df_current\<close> for an uploaded
  table, with the automatic storing switched on: the normalized table when there is no
  fatal error, and nothing otherwise (an exception is caught and reported).
\<close>

definition stored :: "pandas \<Rightarrow> frame \<Rightarrow> frame option" where
  "stored L raw =
     (case validate_and_normalize L raw of
        Inl e \<Rightarrow> None
      | Inr r \<Rightarrow> if errors r \<noteq> [] then None else table r)"

section \<open>The sample table and its CSV file\<close>

text \<open>
  \<open>pd.DataFrame(records)\<close> of a list of dictionaries: the columns are the keys in the
  order in which they first occur, and a record without a key has a missing cell there.
\<close>

definition DataFrame :: "(string \<times> cell) list list \<Rightarrow> frame" where
  "DataFrame recs =
     \<lparr>nrows = length recs,
      cols = map (\<lambda>k. (k, map (\<lambda>r. case map_of r k of None \<Rightarrow> NA | Some v \<Rightarrow> v) recs))
                 (rev (remdups (rev (concat (map (map fst) recs)))))\<rparr>"

definition sample_df :: frame where
  "sample_df = DataFrame
     [[(''patient_id'', Str ''45991''), (''initials'', Str ''J.M.M''), (''sex'', Str ''M''),
       (''age_days'', Num 10), (''ward'', Str ''NBU''),
       (''admission_date'', Str ''2025-09-01''), (''discharge_date'', Str ''0000-00-00''),
       (''outcome'', Str ''Dead''), (''death_date'', Str ''2025-09-04''),
       (''primary_diagnosis'', Str ''Neonatal Sepsis''), (''Notes'', Str ''SP puncture done'')],
      [(''patient_id'', Str ''46781''), (''initials'', Str ''D.S.J''), (''sex'', Str ''F''),
       (''age_months'', Num 10), (''ward'', Str ''Pediatrics''),
       (''admission_date'', Str ''2025-09-02''), (''discharge_date'', Str ''2025-09-09''),
       (''outcome'', Str ''Alive''), (''death_date'', Str ''2025-09-04''),
       (''primary_diagnosis'', Str ''Severe Pneumonia''),
       (''Notes'', Str ''Counseled on danger signs'')]]"

definition join :: "string \<Rightarrow> string list \<Rightarrow> string" where
  "join sep xs = (case xs of [] \<Rightarrow> [] | y # ys \<Rightarrow> y @ concat (map (\<lambda>z. sep @ z) ys))"

fun split_on :: "char \<Rightarrow> string \<Rightarrow> string list" where
  "split_on d [] = [[]]"
| "split_on d (c # cs) =
     (if c = d then [] # split_on d cs
      else (case split_on d cs of [] \<Rightarrow> [[c]] | f # fs \<Rightarrow> (c # f) # fs))"

text \<open>
  \<open>df.to_csv(buf, index=False)\<close> and \<open>pd.read_csv\<close> on fields that need no quoting
  (no comma, quote or line break, as in the sample) and a header without repeated names.
  A missing cell is written as the empty field. Reading takes a column for numeric when
  every field of it is a number or one of the texts for a missing value.
\<close>

definition plain_field :: "string \<Rightarrow> bool" where
  "plain_field s = (\<not> list_ex (\<lambda>c. c = CHR '','' \<or> c = CHR 0x22 \<or> c = CHR 0x0A \<or> c = CHR 0x0D) s)"

definition csv_field :: "pandas \<Rightarrow> cell \<Rightarrow> string" where
  "csv_field L c = (case c of NA \<Rightarrow> [] | Str s \<Rightarrow> s | _ \<Rightarrow> text_of L c)"

definition csv_fields :: "pandas \<Rightarrow> frame \<Rightarrow> string list list" where
  "csv_fields L df =
     columns df # map (\<lambda>i. map (\<lambda>p. csv_field L (snd p ! i)) (cols df)) [0..<nrows df]"

definition to_csv :: "pandas \<Rightarrow> frame \<Rightarrow> string" where
  "to_csv L df = concat (map (\<lambda>fs. join '','' fs @ [CHR 0x0A]) (csv_fields L df))"

text \<open>\<open>make_sample_csv_bytes\<close>: the sample written as CSV.\<close>

definition make_sample_csv_bytes :: "pandas \<Rightarrow> string" where
  "make_sample_csv_bytes L = to_csv L sample_df"

definition na_values :: "string list" where
  "na_values = ['''', ''#N/A'', ''#N/A N/A'', ''#NA'', ''-1.#IND'', ''-1.#QNAN'', ''-NaN'',
     ''-nan'', ''1.#IND'', ''1.#QNAN'', ''<NA>'', ''N/A'', ''NA'', ''NULL'', ''NaN'', ''None'',
     ''n/a'', ''nan'', ''null'']"

definition read_column :: "pandas \<Rightarrow> string list \<Rightarrow> cell list" where
  "read_column L texts =
     (if list_all (\<lambda>t. t \<in> set na_values \<or> number_of L (Str t) \<noteq> None) texts
      then map (\<lambda>t. if t \<in> set na_values then NA else to_numeric L (Str t)) texts
      else map (\<lambda>t. if t \<in> set na_values then NA else Str t) texts)"

datatype csv_error = EmptyDataError

definition read_csv :: "pandas \<Rightarrow> string \<Rightarrow> csv_error + frame" where
  "read_csv L text =
     (case filter (\<lambda>l. l \<noteq> []) (split_on (CHR 0x0A) text) of
        [] \<Rightarrow> Inl EmptyDataError
      | h # ls \<Rightarrow>
          (let header = split_on (CHR '','') h;
               rows = map (split_on (CHR '','')) ls
           in Inr \<lparr>nrows = length rows,
                   cols = map (\<lambda>j. (header ! j,
                                     read_column L (map (\<lambda>r. if j < length r then r ! j else []) rows)))
                              [0..<length header]\<rparr>))"

section \<open>The conversions on the texts of a CSV file\<close>

text \<open>
  An instance of the library's conversions for the cells the sample holds: decimal numbers,
  dates written \<open>YYYY-MM-DD\<close>, and the text of a float, of a timestamp and of a period,
  with \<open>astype(str)\<close> as in pandas 2 and with exact arithmetic, which is the arithmetic of
  floats wherever the exact result is a float.
\<close>

definition is_digit :: "char \<Rightarrow> bool" where
  "is_digit c = (let n = (of_char c :: nat) in 48 \<le> n \<and> n \<le> 57)"

definition nat_of_digits :: "string \<Rightarrow> nat" where
  "nat_of_digits s = foldl (\<lambda>a c. 10 * a + ((of_char c :: nat) - 48)) 0 s"

definition rat_of_digits :: "string \<Rightarrow> rat" where
  "rat_of_digits s = foldl (\<lambda>a c. 10 * a + of_nat ((of_char c :: nat) - 48)) 0 s"

definition unsigned_decimal :: "string \<Rightarrow> rat option" where
  "unsigned_decimal s =
     (let ip = takeWhile is_digit s; rest = dropWhile is_digit s in
      if ip = [] then None
      else (case rest of
              [] \<Rightarrow> Some (rat_of_digits ip)
            | c # fp \<Rightarrow>
                if c = CHR ''.'' \<and> list_all is_digit fp
                then Some (rat_of_digits ip + rat_of_digits fp / 10 ^ length fp)
                else None))"

definition decimal :: "string \<Rightarrow> rat option" where
  "decimal s =
     (case s of
        [] \<Rightarrow> None
      | c # cs \<Rightarrow> if c = CHR ''-'' then map_option uminus (unsigned_decimal cs)
                 else unsigned_decimal s)"

definition leap_year :: "nat \<Rightarrow> bool" where
  "leap_year y = (y mod 4 = 0 \<and> (y mod 100 \<noteq> 0 \<or> y mod 400 = 0))"

definition days_in_month :: "nat \<Rightarrow> nat \<Rightarrow> nat" where
  "days_in_month y m =
     (if m = 2 then (if leap_year y then 29 else 28)
      else if m = 4 \<or> m = 6 \<or> m = 9 \<or> m = 11 then 30 else 31)"

definition iso_date :: "string \<Rightarrow> date option" where
  "iso_date s =
     (if length s = 10 \<and> s ! 4 = CHR ''-'' \<and> s ! 7 = CHR ''-''
         \<and> list_all is_digit (take 4 s) \<and> list_all is_digit (take 2 (drop 5 s))
         \<and> list_all is_digit (drop 8 s)
      then (let y = nat_of_digits (take 4 s); m = nat_of_digits (take 2 (drop 5 s));
                d = nat_of_digits (drop 8 s)
            in if 1678 \<le> y \<and> y \<le> 2261 \<and> 1 \<le> m \<and> m \<le> 12 \<and> 1 \<le> d \<and> d \<le> days_in_month y m
               then Some (y, m, d) else None)
      else None)"

fun str_of_nat :: "nat \<Rightarrow> string" where
  "str_of_nat n =
     (if n < 10 then [char_of (48 + n)] else str_of_nat (n div 10) @ [char_of (48 + n mod 10)])"

definition zero_pad :: "nat \<Rightarrow> nat \<Rightarrow> string" where
  "zero_pad w n = (let s = str_of_nat n in replicate (w - length s) (CHR ''0'') @ s)"

text \<open>The text of a monthly period, \<open>NaT\<close> for a missing one.\<close>

definition period_str :: "cell \<Rightarrow> string" where
  "period_str c = (case c of Per (y, m) \<Rightarrow> zero_pad 4 y @ ''-'' @ zero_pad 2 m | _ \<Rightarrow> ''NaT'')"

text \<open>
  The text of a float, to one decimal digit: the floats of the sample are integral, and
  their text is as in \<open>10.0\<close>.
\<close>

definition float_str :: "rat \<Rightarrow> string" where
  "float_str q =
     (if q < 0 then ''-'' else []) @ str_of_nat (nat \<lfloor>\<bar>q\<bar>\<rfloor>) @ ''.''
       @ str_of_nat (nat \<lfloor>(\<bar>q\<bar> - of_int \<lfloor>\<bar>q\<bar>\<rfloor>) * 10\<rfloor>)"

definition csv_lib :: pandas where
  "csv_lib =
     \<lparr>number_of = (\<lambda>c. case c of Str s \<Rightarrow> decimal (strip s) | _ \<Rightarrow> None),
      date_of = (\<lambda>c. case c of Str s \<Rightarrow> iso_date (strip s) | _ \<Rightarrow> None),
      text_of = (\<lambda>c. case c of
                   Num q \<Rightarrow> float_str q
                 | TS (y, m, d) \<Rightarrow> zero_pad 4 y @ ''-'' @ zero_pad 2 m @ ''-'' @ zero_pad 2 d
                 | Per p \<Rightarrow> period_str (Per p)
                 | Str s \<Rightarrow> s
                 | NA \<Rightarrow> ''nan''),
      na_as_text = True,
      float_add = (\<lambda>x y. x + y),
      float_sub = (\<lambda>x y. x - y),
      float_mul = (\<lambda>x y. x * y),
      float_div = (\<lambda>x y. x / y),
      float_round2 = (\<lambda>x. of_int (py_round (x * 100)) / 100)\<rparr>"

section \<open>The datasets of a session\<close>

text \<open>
  What a page computes is shown, or the page stops itself with a message (\<open>st.stop()\<close>),
  or an exception of the library ends it.
\<close>

datatype 'a page = Stopped string | Raised pd_error | Shown 'a

text \<open>
  \<open>pd.concat([a, b], ignore_index=True)\<close>: the rows of \<open>b\<close> under those of \<open>a\<close>. With
  the same labels in the same order the columns are joined by position; otherwise the
  labels are united in the order in which they occur, a table without a label has missing
  cells there, and a repeated label cannot be aligned.
\<close>

definition column_or_na :: "frame \<Rightarrow> string \<Rightarrow> cell list" where
  "column_or_na df c = (case getcol df c of Inr xs \<Rightarrow> xs | Inl e \<Rightarrow> replicate (nrows df) NA)"

definition concat_frames :: "frame \<Rightarrow> frame \<Rightarrow> pd_error + frame" where
  "concat_frames a b =
     (if columns a = columns b
      then Inr \<lparr>nrows = nrows a + nrows b,
                cols = map (\<lambda>pq. (fst (fst pq), snd (fst pq) @ snd (snd pq))) (zip (cols a) (cols b))\<rparr>
      else if distinct (columns a) \<and> distinct (columns b)
      then Inr \<lparr>nrows = nrows a + nrows b,
                cols = map (\<lambda>c. (c, column_or_na a c @ column_or_na b c))
                           (columns a @ filter (\<lambda>c. c \<notin> set (columns a)) (columns b))\<rparr>
      else Inl InvalidIndexError)"

text \<open>A column the page computes and stores under a label that the table repeats.\<close>

definition repeated :: "frame \<Rightarrow> string \<Rightarrow> bool" where
  "repeated df c = (1 < length (filter (\<lambda>p. fst p = c) (cols df)))"

section \<open>Rates\<close>

text \<open>
  The quotient of two columns of counts is a float: a count divided by zero is infinite,
  zero divided by zero is not a number, and neither raises.
\<close>

datatype float = Finite rat | PosInf | NaN

definition div_counts :: "pandas \<Rightarrow> nat \<Rightarrow> nat \<Rightarrow> float" where
  "div_counts L a b =
     (if b = 0 then (if a = 0 then NaN else PosInf)
      else Finite (float_div L (of_int (int a)) (of_int (int b))))"

text \<open>\<open>(x * 100).round(2)\<close> on a float.\<close>

definition percent_round2 :: "pandas \<Rightarrow> float \<Rightarrow> float" where
  "percent_round2 L x =
     (case x of
        Finite q \<Rightarrow> Finite (float_round2 L (float_mul L q 100))
      | PosInf \<Rightarrow> PosInf
      | NaN \<Rightarrow> NaN)"

section \<open>Step 2: the monthly summary\<close>

text \<open>
  What a page has prepared for counting: the table, and for each row its month (a text, or
  missing) and its death indicator.
\<close>

record prepared =
  data :: frame
  months :: "cell list"
  deaths :: "bool list"

record summary_row =
  month_label :: string
  total_admissions :: nat
  total_deaths :: nat
  mortality_rate :: float

text \<open>
  \<open>.dt.to_period("M").astype(str)\<close> on one timestamp: the text of the month; for a
  missing date the text \<open>NaT\<close>, or a missing cell where \<open>astype(str)\<close> keeps missing
  cells.
\<close>

definition month_text :: "pandas \<Rightarrow> cell \<Rightarrow> cell" where
  "month_text L c =
     (case to_period_M c of
        Per p \<Rightarrow> Str (period_str (Per p))
      | _ \<Rightarrow> (if na_as_text L then Str ''NaT'' else NA))"

fun texts :: "cell list \<Rightarrow> string list" where
  "texts [] = []"
| "texts (Str s # cs) = s # texts cs"
| "texts (c # cs) = texts cs"

text \<open>
  The months of a column, as \<open>groupby("month")\<close> and \<open>sorted(col.dropna().unique())\<close>
  list them: the distinct texts in order, without the missing cells.
\<close>

definition month_labels :: "cell list \<Rightarrow> string list" where
  "month_labels ms = sort (remdups (texts ms))"

text \<open>The rows of one month: the entries of \<open>xs\<close> at the rows whose month is \<open>m\<close>.\<close>

definition in_month :: "cell list \<Rightarrow> 'a list \<Rightarrow> string \<Rightarrow> 'a list" where
  "in_month ms xs m = map snd (filter (\<lambda>p. fst p = Str m) (zip ms xs))"

text \<open>Lines 18 to 29 of step2\_mortality\_analysis.py.\<close>

definition step2_load :: "frame option \<Rightarrow> frame option \<Rightarrow> frame page" where
  "step2_load df_current df_previous =
     (case df_current of
        None \<Rightarrow> Stopped ''Please upload and validate at least the current month data in Step 1.''
      | Some cur \<Rightarrow>
          (case df_previous of
             None \<Rightarrow> Shown cur
           | Some prev \<Rightarrow> (case concat_frames prev cur of Inl e \<Rightarrow> Raised e | Inr df \<Rightarrow> Shown df)))"

text \<open>
  Lines 42 and 43: the lower-cased outcome text holds \<open>dead\<close> or is \<open>death\<close>; a
  missing text counts as neither.
\<close>

definition dead_or_death :: "pandas \<Rightarrow> cell \<Rightarrow> bool" where
  "dead_or_death L c =
     (case str_map lower (astype_str L c) of
        Str s \<Rightarrow> contains s ''dead'' \<or> s = ''death''
      | _ \<Rightarrow> False)"

text \<open>Lines 32 to 46: the dates, the month of admission and the death indicator.\<close>

definition step2_prepare :: "pandas \<Rightarrow> frame \<Rightarrow> pd_error + prepared" where
  "step2_prepare L df_all =
     (case parse_dates L [''admission_date'', ''death_date''] df_all of
        Inl e \<Rightarrow> Inl e
      | Inr df1 \<Rightarrow>
     (case getcol df1 ''admission_date'' of
        Inl e \<Rightarrow> Inl e
      | Inr adm \<Rightarrow>
     (let df2 = setcol df1 ''month'' (map (month_text L) adm) in
      case getcol df2 ''outcome'' of
        Inl e \<Rightarrow> Inl e
      | Inr out \<Rightarrow>
          if repeated df2 ''is_death'' then Inl (NotASeries ''is_death'')
          else if ''death_date'' \<in> set (columns df2)
          then (case getcol df2 ''death_date'' of
                  Inl e \<Rightarrow> Inl e
                | Inr dd \<Rightarrow>
                    Inr \<lparr>data = df2, months = map (month_text L) adm,
                         deaths = map (\<lambda>p. dead_or_death L (fst p) \<or> notna (snd p)) (zip out dd)\<rparr>)
          else Inr \<lparr>data = df2, months = map (month_text L) adm,
                    deaths = map (dead_or_death L) out\<rparr>)))"

text \<open>
  Lines 49 to 58: one row for each month, in the order of the labels; the admissions are
  the rows of the month with a patient\_id, the deaths those with the death indicator, and
  the rate is their quotient, without a test for zero admissions.
\<close>

definition monthly_row :: "pandas \<Rightarrow> cell list \<Rightarrow> cell list \<Rightarrow> bool list \<Rightarrow> string \<Rightarrow> summary_row" where
  "monthly_row L ms pid isd m =
     (let adm = length (filter notna (in_month ms pid m));
          dead = length (filter id (in_month ms isd m))
      in \<lparr>month_label = m, total_admissions = adm, total_deaths = dead,
          mortality_rate = percent_round2 L (div_counts L dead adm)\<rparr>)"

definition monthly_summary :: "pandas \<Rightarrow> prepared \<Rightarrow> pd_error + summary_row list" where
  "monthly_summary L p =
     (case getcol (data p) ''month'' of
        Inl e \<Rightarrow> Inl e
      | Inr ms \<Rightarrow>
     (case getcol (data p) ''patient_id'' of
        Inl e \<Rightarrow> Inl e
      | Inr pid \<Rightarrow>
          Inr (map (monthly_row L (months p) pid (deaths p)) (month_labels (months p)))))"

definition step2 :: "pandas \<Rightarrow> frame option \<Rightarrow> frame option \<Rightarrow> summary_row list page" where
  "step2 L df_current df_previous =
     (case step2_load df_current df_previous of
        Stopped msg \<Rightarrow> Stopped msg
      | Raised e \<Rightarrow> Raised e
      | Shown df_all \<Rightarrow>
          (case step2_prepare L df_all of
             Inl e \<Rightarrow> Raised e
           | Inr p \<Rightarrow> (case monthly_summary L p of Inl e \<Rightarrow> Raised e | Inr rows \<Rightarrow> Shown rows)))"

section \<open>Step 3: the comparison of two months\<close>

record month_stats =
  month_of :: string
  admissions :: nat
  dead :: nat
  rate :: rat

record comparison =
  first_month :: month_stats
  second_month :: month_stats
  diff :: rat
  trend :: "pd_error + summary_row list"

definition two_months_warning :: string where
  "two_months_warning = ''You need data from at least two different months to compare.''"

text \<open>Lines 9 to 17 of step3\_detailed\_analysis.py.\<close>

definition step3_load :: "frame option \<Rightarrow> frame option \<Rightarrow> frame page" where
  "step3_load df_current df_previous =
     (case (df_current, df_previous) of
        (Some cur, Some prev) \<Rightarrow>
          (case concat_frames prev cur of Inl e \<Rightarrow> Raised e | Inr df \<Rightarrow> Shown df)
      | _ \<Rightarrow> Stopped ''Missing one or both datasets. Please upload both current and previous month files in Step 1.'')"

text \<open>
  Lines 20 to 28: the month of admission, or of death without an admission date. The
  result is the table and the month of each row.
\<close>

definition step3_month :: "pandas \<Rightarrow> frame \<Rightarrow> (frame \<times> cell list) page" where
  "step3_month L df =
     (let anchor = (if ''admission_date'' \<in> set (columns df) then Some ''admission_date''
                    else if ''death_date'' \<in> set (columns df) then Some ''death_date''
                    else None)
      in case anchor of
           None \<Rightarrow> Stopped ''Missing admission_date or death_date columns.''
         | Some c \<Rightarrow>
             (case getcol df c of
                Inl e \<Rightarrow> Raised e
              | Inr xs \<Rightarrow>
                  (let ms = map (\<lambda>x. month_text L (to_datetime L x)) xs in
                   Shown (setcol (setcol df c (map (to_datetime L) xs)) ''month'' ms, ms))))"

text \<open>Lines 31 to 36: the outcome text, lower-cased and trimmed.\<close>

definition step3_outcome :: "pandas \<Rightarrow> frame \<Rightarrow> pd_error + frame" where
  "step3_outcome L df =
     (case col_exists_any df [''outcome'', ''outcome_norm''] of
        None \<Rightarrow> Inr (setconst df ''outcome'' (Str ''unknown''))
      | Some c \<Rightarrow>
          (case getcol df c of
             Inl e \<Rightarrow> Inl e
           | Inr xs \<Rightarrow>
               Inr (setcol df ''outcome''
                      (map (\<lambda>x. str_map strip (str_map lower (astype_str L x))) xs))))"

text \<open>\<open>.str.contains(sub, na=False)\<close> on one cell of a column of texts.\<close>

definition str_contains :: "cell \<Rightarrow> string \<Rightarrow> bool" where
  "str_contains c sub = (case c of Str s \<Rightarrow> contains s sub | _ \<Rightarrow> False)"

text \<open>
  Lines 39 to 45: the death indicator; the months are then read from the column
  \<open>month\<close>.
\<close>

definition step3_deaths :: "pandas \<Rightarrow> frame \<Rightarrow> cell list \<Rightarrow> pd_error + prepared" where
  "step3_deaths L df ms =
     (case getcol df ''outcome'' of
        Inl e \<Rightarrow> Inl e
      | Inr out \<Rightarrow>
          if repeated df ''is_death'' then Inl (NotASeries ''is_death'')
          else
           (case (if ''death_date'' \<in> set (columns df)
                  then (case getcol df ''death_date'' of
                          Inl e \<Rightarrow> Inl e
                        | Inr dd \<Rightarrow>
                            Inr (setcol df ''death_date'' (map (to_datetime L) dd),
                                 map (\<lambda>p. str_contains (fst p) ''dead'' \<or> notna (to_datetime L (snd p)))
                                     (zip out dd)))
                  else Inr (df, map (\<lambda>x. str_contains x ''dead'') out)) of
              Inl e \<Rightarrow> Inl e
            | Inr (df1, isd) \<Rightarrow>
                (case getcol df1 ''month'' of
                   Inl e \<Rightarrow> Inl e
                 | Inr month_column \<Rightarrow> Inr \<lparr>data = df1, months = ms, deaths = isd\<rparr>)))"

definition step3_prepare :: "pandas \<Rightarrow> frame option \<Rightarrow> frame option \<Rightarrow> prepared page" where
  "step3_prepare L df_current df_previous =
     (case step3_load df_current df_previous of
        Stopped msg \<Rightarrow> Stopped msg
      | Raised e \<Rightarrow> Raised e
      | Shown df \<Rightarrow>
          (case step3_month L df of
             Stopped msg \<Rightarrow> Stopped msg
           | Raised e \<Rightarrow> Raised e
           | Shown (df1, ms) \<Rightarrow>
               (case step3_outcome L df1 of
                  Inl e \<Rightarrow> Raised e
                | Inr df2 \<Rightarrow>
                    (case step3_deaths L df2 ms of Inl e \<Rightarrow> Raised e | Inr p \<Rightarrow> Shown p))))"

text \<open>Lines 58 to 62: \<open>mortality_stats\<close> of the rows of one month.\<close>

definition mortality_stats :: "pandas \<Rightarrow> bool list \<Rightarrow> nat \<times> nat \<times> rat" where
  "mortality_stats L sub_deaths =
     (let total_adm = length sub_deaths;
          total_dead = length (filter id sub_deaths);
          mortality_rate =
            (if total_adm > 0
             then float_round2 L
                    (float_mul L (float_div L (of_int (int total_dead)) (of_int (int total_adm))) 100)
             else 0)
      in (total_adm, total_dead, mortality_rate))"

definition stats_of :: "pandas \<Rightarrow> prepared \<Rightarrow> string \<Rightarrow> month_stats" where
  "stats_of L p m =
     (case mortality_stats L (in_month (months p) (deaths p) m) of
        (a, d, r) \<Rightarrow> \<lparr>month_of = m, admissions = a, dead = d, rate = r\<rparr>)"

text \<open>
  Lines 45 to 119. The two months are the choices made in the select boxes, which offer
  the months of the table.
\<close>

definition step3 :: "pandas \<Rightarrow> frame option \<Rightarrow> frame option \<Rightarrow> string \<Rightarrow> string \<Rightarrow> comparison page" where
  "step3 L df_current df_previous month1 month2 =
     (case step3_prepare L df_current df_previous of
        Stopped msg \<Rightarrow> Stopped msg
      | Raised e \<Rightarrow> Raised e
      | Shown p \<Rightarrow>
          if length (month_labels (months p)) < 2 then Stopped two_months_warning
          else Shown \<lparr>first_month = stats_of L p month1, second_month = stats_of L p month2,
                      diff = float_sub L (rate (stats_of L p month2)) (rate (stats_of L p month1)),
                      trend = monthly_summary L p\<rparr>)"

section \<open>Step 4: age groups\<close>

definition en_dash :: string where
  "en_dash = [CHR 0xE2, CHR 0x80, CHR 0x93]"

definition bucket_lt_1_month :: string where
  "bucket_lt_1_month = ''<1 month''"

definition bucket_1_11_months :: string where
  "bucket_1_11_months = ''1'' @ en_dash @ ''11 months''"

definition bucket_1_4_years :: string where
  "bucket_1_4_years = ''1'' @ en_dash @ ''4 years''"

definition bucket_5_14_years :: string where
  "bucket_5_14_years = ''5'' @ en_dash @ ''14 years''"

definition bucket_15_plus :: string where
  "bucket_15_plus = ''15+ years''"

definition bucket_unknown :: string where
  "bucket_unknown = ''Unknown''"

text \<open>
  \<open>age_group\<close> of step4\_diagnosis\_age.py. The comparison \<open>days < 30\<close> of a string, a
  timestamp or a period with a number raises \<open>TypeError\<close>.
\<close>

fun age_group :: "cell \<Rightarrow> pd_error + string" where
  "age_group NA = Inr bucket_unknown"
| "age_group (Num days) =
     Inr (if days < 30 then bucket_lt_1_month
          else if days < 365 then bucket_1_11_months
          else if days < 5 * 365 then bucket_1_4_years
          else if days < 15 * 365 then bucket_5_14_years
          else bucket_15_plus)"
| "age_group c = Inl TypeError"

text \<open>The order in which the page lists the buckets (the argument of \<open>reindex\<close>).\<close>

definition age_buckets :: "string list" where
  "age_buckets = [bucket_lt_1_month, bucket_1_11_months, bucket_1_4_years,
                  bucket_5_14_years, bucket_15_plus, bucket_unknown]"

section \<open>Step 4: deaths by age group\<close>

datatype age_section = NoMortality | AgeCounts "(string \<times> nat) list"

text \<open>Lines 10 to 20 of step4\_diagnosis\_age.py.\<close>

definition step4_load :: "frame option \<Rightarrow> frame option \<Rightarrow> frame page" where
  "step4_load df_current df_previous =
     (case df_current of
        None \<Rightarrow> Stopped ''No clean data found. Please complete Step 1 first.''
      | Some cur \<Rightarrow>
          (case df_previous of
             None \<Rightarrow> Shown cur
           | Some prev \<Rightarrow> (case concat_frames prev cur of Inl e \<Rightarrow> Raised e | Inr df \<Rightarrow> Shown df)))"

text \<open>
  Lines 23 to 32: the outcome column, \<open>outcome_norm\<close> before \<open>outcome\<close>, lower-cased.
  The result is the table and the lower-cased outcome of each row.
\<close>

definition step4_outcome :: "pandas \<Rightarrow> frame \<Rightarrow> (frame \<times> cell list) page" where
  "step4_outcome L df =
     (case col_exists_any df [''outcome_norm'', ''outcome''] of
        None \<Rightarrow> Stopped ''Could not find outcome column (outcome_norm or outcome).''
      | Some outcome_col \<Rightarrow>
          (case getcol df outcome_col of
             Inl e \<Rightarrow> Raised e
           | Inr xs \<Rightarrow>
               (let out = map (\<lambda>x. str_map lower (astype_str L x)) xs in
                Shown (setcol df outcome_col out, out))))"

text \<open>
  Lines 35 to 39: \<open>df["month"].iloc[0]\<close> needs a first row; a column of periods is turned
  into text.
\<close>

definition step4_month :: "frame \<Rightarrow> pd_error + frame" where
  "step4_month df =
     (if ''month'' \<in> set (columns df)
      then (if nrows df = 0 then Inl IndexError
            else (case getcol df ''month'' of
                    Inl e \<Rightarrow> Inr df
                  | Inr xs \<Rightarrow>
                      (case xs of
                         Per p # rest \<Rightarrow> Inr (setcol df ''month'' (map (\<lambda>c. Str (period_str c)) xs))
                       | _ \<Rightarrow> Inr df)))
      else Inr (setconst df ''month'' (Str ''Unknown'')))"

text \<open>
  \<open>row.get(c)\<close> for each row: the cell, a missing value without the column, and under a
  repeated label a series, whose test \<open>pd.notna\<close> has no truth value.
\<close>

definition row_get :: "frame \<Rightarrow> string \<Rightarrow> (pd_error + cell) list" where
  "row_get df c =
     (case getcol df c of
        Inr xs \<Rightarrow> map Inr xs
      | Inl (KeyError k) \<Rightarrow> replicate (nrows df) (Inr NA)
      | Inl e \<Rightarrow> replicate (nrows df) (Inl e))"

text \<open>\<open>v * k\<close> for a cell of a row: a number is multiplied, a string is repeated.\<close>

definition times :: "pandas \<Rightarrow> cell \<Rightarrow> nat \<Rightarrow> pd_error + cell" where
  "times L v k =
     (case v of
        Num q \<Rightarrow> Inr (Num (float_mul L q (of_int (int k))))
      | Str s \<Rightarrow> Inr (Str (concat (replicate k s)))
      | _ \<Rightarrow> Inl TypeError)"

text \<open>Lines 44 to 51: \<open>compute_age_days\<close> on the three age cells of a row.\<close>

definition compute_age_days ::
  "pandas \<Rightarrow> (pd_error + cell) \<times> (pd_error + cell) \<times> (pd_error + cell) \<Rightarrow> pd_error + cell" where
  "compute_age_days L row =
     (case row of (age_days, age_months, age_years) \<Rightarrow>
        (case age_days of
           Inl e \<Rightarrow> Inl e
         | Inr d \<Rightarrow>
             if notna d then Inr d
             else (case age_months of
                     Inl e \<Rightarrow> Inl e
                   | Inr m \<Rightarrow>
                       if notna m then times L m 30
                       else (case age_years of
                               Inl e \<Rightarrow> Inl e
                             | Inr y \<Rightarrow> if notna y then times L y 365 else Inr NA))))"

definition step4_ages :: "pandas \<Rightarrow> frame \<Rightarrow> pd_error + cell list" where
  "step4_ages L df =
     collect (map (compute_age_days L)
                (zip (row_get df ''age_days'') (zip (row_get df ''age_months'') (row_get df ''age_years''))))"

text \<open>
  Lines 82 to 99: the rows whose outcome is \<open>dead\<close>, their age groups, and
  \<open>value_counts().reindex(buckets).dropna()\<close>: the count of each bucket that occurs,
  in the order of the buckets.
\<close>

definition age_counts :: "string list \<Rightarrow> (string \<times> nat) list" where
  "age_counts groups =
     filter (\<lambda>p. snd p \<noteq> 0) (map (\<lambda>b. (b, length (filter (\<lambda>g. g = b) groups))) age_buckets)"

definition deaths_by_age :: "cell list \<Rightarrow> cell list \<Rightarrow> pd_error + age_section" where
  "deaths_by_age out ages =
     (let deaths_ages = map snd (filter (\<lambda>p. fst p = Str ''dead'') (zip out ages)) in
      if deaths_ages = [] then Inr NoMortality
      else (case collect (map age_group deaths_ages) of
              Inl e \<Rightarrow> Inl e
            | Inr groups \<Rightarrow> Inr (AgeCounts (age_counts groups))))"

definition step4 :: "pandas \<Rightarrow> frame option \<Rightarrow> frame option \<Rightarrow> age_section page" where
  "step4 L df_current df_previous =
     (case step4_load df_current df_previous of
        Stopped msg \<Rightarrow> Stopped msg
      | Raised e \<Rightarrow> Raised e
      | Shown df \<Rightarrow>
          (case step4_outcome L df of
             Stopped msg \<Rightarrow> Stopped msg
           | Raised e \<Rightarrow> Raised e
           | Shown (df1, out) \<Rightarrow>
               (case step4_month df1 of
                  Inl e \<Rightarrow> Raised e
                | Inr df2 \<Rightarrow>
                    (case step4_ages L df2 of
                       Inl e \<Rightarrow> Raised e
                     | Inr ages \<Rightarrow>
                         (case deaths_by_age out ages of
                            Inl e \<Rightarrow> Raised e
                          | Inr r \<Rightarrow> Shown r)))))"

section \<open>Notions used to state the properties\<close>

text \<open>The columns that carry a label, in order.\<close>

definition labelled :: "frame \<Rightarrow> string \<Rightarrow> cell list list" where
  "labelled df c = map snd (filter (\<lambda>p. fst p = c) (cols df))"

text \<open>A table is well formed when each column has one cell for each row.\<close>

definition wf_frame :: "frame \<Rightarrow> bool" where
  "wf_frame df = list_all (\<lambda>p. length (snd p) = nrows df) (cols df)"

text \<open>
  \<open>updates T df df'\<close>: \<open>df'\<close> comes from \<open>df\<close> by storing columns under labels of \<open>T\<close>.
\<close>

definition updates :: "string set \<Rightarrow> frame \<Rightarrow> frame \<Rightarrow> bool" where
  "updates T df df' \<longleftrightarrow>
     nrows df' = nrows df
     \<and> (\<forall>c. c \<notin> T \<longrightarrow> labelled df' c = labelled df c)
     \<and> (distinct (columns df) \<longrightarrow> distinct (columns df'))
     \<and> (wf_frame df \<longrightarrow> wf_frame df')
     \<and> set (columns df) \<subseteq> set (columns df')
     \<and> set (columns df') \<subseteq> set (columns df) \<union> T"

text \<open>The column of the table that the normalizer returns, when it returns one.\<close>

definition result_column :: "pandas \<Rightarrow> frame \<Rightarrow> string \<Rightarrow> pd_error + cell list" where
  "result_column L raw c =
     (case validate_and_normalize L raw of
        Inl e \<Rightarrow> Inl e
      | Inr r \<Rightarrow> (case table r of None \<Rightarrow> Inl (KeyError c) | Some df \<Rightarrow> getcol df c))"

definition is_str :: "cell \<Rightarrow> bool" where
  "is_str c = (case c of Str s \<Rightarrow> True | _ \<Rightarrow> False)"

section \<open>Basic facts about tables\<close>

lemma columns_setcol:
  "columns (setcol df c xs) = (if c \<in> set (columns df) then columns df else columns df @ [c])"
  by (auto simp: setcol_def columns_def)

lemma nrows_setcol [simp]: "nrows (setcol df c xs) = nrows df"
  by (simp add: setcol_def)

lemma nrows_setconst [simp]: "nrows (setconst df c v) = nrows df"
  by (simp add: setconst_def)

lemma filter_label_absent:
  "c \<notin> fst ` set ps \<Longrightarrow> filter (\<lambda>p. fst p = c) ps = []"
  by (induction ps) auto

lemma labelled_setcol_other: "c' \<noteq> c \<Longrightarrow> labelled (setcol df c xs) c' = labelled df c'"
proof -
  assume ne: "c' \<noteq> c"
  have "map snd (filter (\<lambda>p. fst p = c') (map (\<lambda>p. if fst p = c then (c, xs) else p) ps))
        = map snd (filter (\<lambda>p. fst p = c') ps)" for ps :: "(string \<times> cell list) list"
    using ne by (induction ps) auto
  with ne show ?thesis
    by (simp add: setcol_def labelled_def)
qed

lemma labelled_setcol_same:
  "labelled (setcol df c xs) c =
     (if c \<in> set (columns df) then replicate (length (labelled df c)) xs else [xs])"
proof -
  have a: "map snd (filter (\<lambda>p. fst p = c) (map (\<lambda>p. if fst p = c then (c, xs) else p) ps))
        = replicate (length (filter (\<lambda>p. fst p = c) ps)) xs" for ps :: "(string \<times> cell list) list"
    by (induction ps) auto
  show ?thesis
    using a [of "cols df"] filter_label_absent [of c "cols df"]
    by (auto simp: setcol_def labelled_def columns_def)
qed

lemma labelled_empty_iff: "labelled df c = [] \<longleftrightarrow> c \<notin> set (columns df)"
  by (auto simp: labelled_def columns_def filter_empty_conv)

lemma getcol_labelled:
  "getcol df c = (case labelled df c of [] \<Rightarrow> Inl (KeyError c) | [xs] \<Rightarrow> Inr xs
                  | xs # ys # zs \<Rightarrow> Inl (NotASeries c))"
  by (simp add: getcol_def labelled_def split: list.splits)

lemma length_labelled_distinct:
  "distinct (columns df) \<Longrightarrow> length (labelled df c) \<le> 1"
proof -
  have "distinct (map fst ps) \<Longrightarrow> length (filter (\<lambda>p. fst p = c) ps) \<le> 1"
    for ps :: "(string \<times> cell list) list"
    by (induction ps) (auto simp: filter_label_absent)
  then show "distinct (columns df) \<Longrightarrow> length (labelled df c) \<le> 1"
    by (simp add: labelled_def columns_def)
qed

lemma getcol_distinct:
  assumes "distinct (columns df)" and "c \<in> set (columns df)"
  shows "\<exists>xs. getcol df c = Inr xs"
proof -
  from assms(2) have "labelled df c \<noteq> []" by (simp add: labelled_empty_iff)
  moreover from assms(1) have "length (labelled df c) \<le> 1" by (rule length_labelled_distinct)
  ultimately show ?thesis
    by (cases "labelled df c" rule: list.exhaust; cases "tl (labelled df c)")
       (auto simp: getcol_labelled)
qed

lemma getcol_Inr_mem: "getcol df c = Inr xs \<Longrightarrow> (c, xs) \<in> set (cols df)"
proof -
  assume "getcol df c = Inr xs"
  then have "filter (\<lambda>p. fst p = c) (cols df) = [(c, xs)] \<or> (\<exists>p. filter (\<lambda>p. fst p = c) (cols df) = [p] \<and> snd p = xs)"
    by (auto simp: getcol_def split: list.splits)
  then obtain p where p: "filter (\<lambda>p. fst p = c) (cols df) = [p]" "snd p = xs"
    by auto
  then have "p \<in> set (filter (\<lambda>p. fst p = c) (cols df))" by simp
  then have "p \<in> set (cols df)" "fst p = c" by auto
  with p(2) show ?thesis by (cases p) auto
qed

lemma getcol_Inr_labelled: "getcol df c = Inr xs \<longleftrightarrow> labelled df c = [xs]"
  by (auto simp: getcol_labelled split: list.splits)

lemma wf_getcol: "wf_frame df \<Longrightarrow> getcol df c = Inr xs \<Longrightarrow> length xs = nrows df"
  by (drule getcol_Inr_mem) (auto simp: wf_frame_def list_all_iff)

lemma wf_setcol: "wf_frame df \<Longrightarrow> length xs = nrows df \<Longrightarrow> wf_frame (setcol df c xs)"
  by (auto simp: wf_frame_def setcol_def list_all_iff)

lemma distinct_setcol: "distinct (columns df) \<Longrightarrow> distinct (columns (setcol df c xs))"
  by (simp add: columns_setcol)

lemma updates_refl: "updates T df df"
  by (simp add: updates_def)

lemma updates_trans: "updates T1 a b \<Longrightarrow> updates T2 b c \<Longrightarrow> updates (T1 \<union> T2) a c"
  unfolding updates_def by (intro conjI; blast?) (auto)

lemma updates_mono: "updates T a b \<Longrightarrow> T \<subseteq> T' \<Longrightarrow> updates T' a b"
  unfolding updates_def by blast

lemma updates_setcol:
  "(wf_frame df \<Longrightarrow> length xs = nrows df) \<Longrightarrow> updates {c} df (setcol df c xs)"
  unfolding updates_def
  by (auto simp: labelled_setcol_other distinct_setcol wf_setcol columns_setcol)

lemma updates_setconst: "updates {c} df (setconst df c v)"
  unfolding setconst_def by (rule updates_setcol) simp

section \<open>Properties of the age groups\<close>

lemma age_buckets_distinct: "distinct age_buckets"
  by (simp add: age_buckets_def bucket_lt_1_month_def bucket_1_11_months_def
      bucket_1_4_years_def bucket_5_14_years_def bucket_15_plus_def bucket_unknown_def
      en_dash_def)

lemma age_group_num_in_buckets: "\<exists>b. age_group (Num d) = Inr b \<and> b \<in> set age_buckets"
  by (simp add: age_buckets_def)

text \<open>
  C5. The age-group classification is total on missing and numeric ages and sends each to
  exactly one of six pairwise distinct buckets: a missing age to Unknown, 0 to 29 days to
  <1 month, 30 to 364 days to 1-11 months, 365 to 1824 days to 1-4 years, 1825 to 5474
  days to 5-14 years, 5475 days and more to 15+ years; so 30, 365, 1825 and 5475 days open
  the next bucket.
\<close>

theorem age_group_partition:
  fixes n :: int and c :: cell
  shows "age_group NA = Inr bucket_unknown
    \<and> (0 \<le> n \<and> n \<le> 29 \<longrightarrow> age_group (Num (of_int n)) = Inr bucket_lt_1_month)
    \<and> (30 \<le> n \<and> n \<le> 364 \<longrightarrow> age_group (Num (of_int n)) = Inr bucket_1_11_months)
    \<and> (365 \<le> n \<and> n \<le> 1824 \<longrightarrow> age_group (Num (of_int n)) = Inr bucket_1_4_years)
    \<and> (1825 \<le> n \<and> n \<le> 5474 \<longrightarrow> age_group (Num (of_int n)) = Inr bucket_5_14_years)
    \<and> (5475 \<le> n \<longrightarrow> age_group (Num (of_int n)) = Inr bucket_15_plus)
    \<and> ((c = NA \<or> (\<exists>d. c = Num d)) \<longrightarrow>
          (\<exists>b. age_group c = Inr b \<and> b \<in> set age_buckets
             \<and> (\<forall>b'. age_group c = Inr b' \<longrightarrow> b' = b)))
    \<and> distinct age_buckets \<and> length age_buckets = 6"
proof -
  have r: "(of_int n :: rat) < of_int m \<longleftrightarrow> n < m" for m :: int
    by simp
  have b1: "0 \<le> n \<and> n \<le> 29 \<longrightarrow> age_group (Num (of_int n)) = Inr bucket_lt_1_month"
    using r [of 30] by simp
  have b2: "30 \<le> n \<and> n \<le> 364 \<longrightarrow> age_group (Num (of_int n)) = Inr bucket_1_11_months"
    using r [of 30] r [of 365] by simp
  have b3: "365 \<le> n \<and> n \<le> 1824 \<longrightarrow> age_group (Num (of_int n)) = Inr bucket_1_4_years"
    using r [of 30] r [of 365] r [of 1825] by simp
  have b4: "1825 \<le> n \<and> n \<le> 5474 \<longrightarrow> age_group (Num (of_int n)) = Inr bucket_5_14_years"
    using r [of 30] r [of 365] r [of 1825] r [of 5475] by simp
  have b5: "5475 \<le> n \<longrightarrow> age_group (Num (of_int n)) = Inr bucket_15_plus"
    using r [of 30] r [of 365] r [of 1825] r [of 5475] by simp
  have tot: "(c = NA \<or> (\<exists>d. c = Num d)) \<longrightarrow>
      (\<exists>b. age_group c = Inr b \<and> b \<in> set age_buckets
         \<and> (\<forall>b'. age_group c = Inr b' \<longrightarrow> b' = b))"
  proof
    assume "c = NA \<or> (\<exists>d. c = Num d)"
    then show "\<exists>b. age_group c = Inr b \<and> b \<in> set age_buckets
         \<and> (\<forall>b'. age_group c = Inr b' \<longrightarrow> b' = b)"
    proof
      assume "c = NA"
      then show ?thesis by (simp add: age_buckets_def)
    next
      assume "\<exists>d. c = Num d"
      then obtain d where "c = Num d" ..
      with age_group_num_in_buckets [of d] show ?thesis by auto
    qed
  qed
  have len: "length age_buckets = 6"
    by (simp add: age_buckets_def)
  from b1 b2 b3 b4 b5 tot age_buckets_distinct len show ?thesis
    by simp
qed

theorem age_group_partition_witness:
  "(30::int) \<le> 30 \<and> (30::int) \<le> 364
   \<and> age_group (Num 30) = Inr bucket_1_11_months
   \<and> age_group (Num 30) \<noteq> Inr bucket_lt_1_month
   \<and> age_group (Num 365) = Inr bucket_1_4_years
   \<and> age_group (Num 1825) = Inr bucket_5_14_years
   \<and> age_group (Num 5475) = Inr bucket_15_plus
   \<and> age_group (Num 29) = Inr bucket_lt_1_month
   \<and> age_group NA = Inr bucket_unknown"
  using age_group_partition [of 30 NA] age_group_partition [of 365 NA]
    age_group_partition [of 1825 NA] age_group_partition [of 5475 NA]
    age_group_partition [of 29 NA] age_buckets_distinct
  by (auto simp add: age_buckets_def)

section \<open>The stages of the normalizer\<close>

lemma columns_strip_columns: "columns (strip_columns df) = map strip (columns df)"
  by (simp add: strip_columns_def columns_def comp_def)

lemma nrows_strip_columns [simp]: "nrows (strip_columns df) = nrows df"
  by (simp add: strip_columns_def)

lemma wf_strip_columns: "wf_frame df \<Longrightarrow> wf_frame (strip_columns df)"
  by (simp add: wf_frame_def strip_columns_def list_all_iff)

lemma collect_length: "collect rs = Inr xs \<Longrightarrow> length xs = length rs"
  by (induction rs arbitrary: xs rule: collect.induct) (auto split: sum.splits)

lemma collect_map_Inr: "collect (map Inr xs) = Inr xs"
  by (induction xs) simp_all

lemma collect_Inr_D: "collect rs = Inr xs \<Longrightarrow> rs = map Inr xs"
  by (induction rs arbitrary: xs rule: collect.induct) (auto split: sum.splits)

lemma collect_Inr_iff: "collect rs = Inr xs \<longleftrightarrow> rs = map Inr xs"
  using collect_map_Inr collect_Inr_D by metis

lemma collect_map_nth:
  "collect (map f xs) = Inr ys \<Longrightarrow> i < length xs \<Longrightarrow> f (xs ! i) = Inr (ys ! i)"
proof -
  assume c: "collect (map f xs) = Inr ys" and i: "i < length xs"
  from c have m: "map f xs = map Inr ys" by (simp add: collect_Inr_iff)
  then have "length xs = length ys" by (metis length_map)
  with i m show ?thesis by (metis nth_map)
qed

lemma parse_dates_updates:
  "parse_dates L cs df = Inr df' \<Longrightarrow> updates (set cs) df df'"
proof (induction cs arbitrary: df)
  case Nil
  then show ?case by (simp add: updates_refl)
next
  case (Cons c cs)
  show ?case
  proof (cases "c \<in> set (columns df)")
    case False
    with Cons.prems have "parse_dates L cs df = Inr df'" by simp
    then have "updates (set cs) df df'" by (rule Cons.IH)
    then show ?thesis by (rule updates_mono) auto
  next
    case True
    with Cons.prems obtain xs where xs: "getcol df c = Inr xs"
      and rest: "parse_dates L cs (setcol df c (map (to_datetime L) xs)) = Inr df'"
      by (auto split: sum.splits)
    from xs have "updates {c} df (setcol df c (map (to_datetime L) xs))"
      by (intro updates_setcol) (simp add: wf_getcol)
    moreover from rest have "updates (set cs) (setcol df c (map (to_datetime L) xs)) df'"
      by (rule Cons.IH)
    ultimately have "updates ({c} \<union> set cs) df df'" by (rule updates_trans)
    then show ?thesis by simp
  qed
qed

lemma length_scale_days: "scale_days L k xs = Inr ys \<Longrightarrow> length ys = length xs"
  by (simp add: scale_days_def collect_length)

lemma derive_age_updates:
  assumes "derive_age L df = Inr (df', a)"
  shows "updates {''age_days''} df df'"
proof -
  have s: "getcol df c = Inr xs \<Longrightarrow> length ys = length xs \<Longrightarrow> updates {''age_days''} df (setcol df ''age_days'' ys)"
    for c xs ys
    by (intro updates_setcol) (simp add: wf_getcol)
  from assms show ?thesis
    unfolding derive_age_def
    by (auto simp: Let_def updates_refl s length_scale_days split: if_splits sum.splits)
qed

lemma normalize_sex_updates:
  "normalize_sex L df = Inr (df', w) \<Longrightarrow> updates {''sex_norm''} df df'"
  unfolding normalize_sex_def
  by (auto simp: updates_setconst wf_getcol intro!: updates_setcol split: if_splits sum.splits)

lemma normalize_outcome_updates:
  "normalize_outcome L df = Inr (df', w) \<Longrightarrow> updates {''outcome_norm''} df df'"
  unfolding normalize_outcome_def
  by (auto simp: updates_setconst wf_getcol collect_length intro!: updates_setcol
      split: if_splits sum.splits)

lemma col_exists_any_Some: "col_exists_any df ns = Some n \<Longrightarrow> n \<in> set (columns df)"
  by (induction ns) (auto split: if_splits)

lemma fill_diagnosis_updates:
  "fill_diagnosis L df = Inr (df', w) \<Longrightarrow> updates {''primary_diagnosis''} df df'"
  unfolding fill_diagnosis_def
  by (auto simp: updates_setconst updates_refl wf_getcol intro!: updates_setcol
      split: if_splits sum.splits option.splits)

lemma derive_month_updates:
  "derive_month df = Inr (df', w, m) \<Longrightarrow> updates {''month''} df df'"
  unfolding derive_month_def month_from_def usable_date_def
  by (auto simp: updates_setconst wf_getcol intro!: updates_setcol
      split: if_splits sum.splits bool.splits)

lemma validate_without_minimal:
  assumes "\<not> list_ex (\<lambda>c. c \<in> set (map strip (columns raw))) minimal_candidates"
  shows "validate_and_normalize L raw =
           Inr \<lparr>table = None, errors = [minimal_error], warnings = [],
                missing_report = [], date_for_month = None\<rparr>"
  unfolding validate_and_normalize_def Let_def columns_strip_columns
  using assms by (simp only: not_False_eq_True if_True)

lemma validate_stages:
  assumes v: "validate_and_normalize L raw = Inr r"
    and m: "list_ex (\<lambda>c. c \<in> set (map strip (columns raw))) minimal_candidates"
  obtains df1 df2 a df3 w3 df4 w4 df5 w5 df6 w6 dfm where
    "parse_dates L recognized_date_cols (strip_columns raw) = Inr df1"
    "derive_age L df1 = Inr (df2, a)"
    "normalize_sex L df2 = Inr (df3, w3)"
    "normalize_outcome L df3 = Inr (df4, w4)"
    "fill_diagnosis L df4 = Inr (df5, w5)"
    "derive_month df5 = Inr (df6, w6, dfm)"
    "r = \<lparr>table = Some df6, errors = [],
          warnings = (if a = None then [age_warning] else []) @ w3 @ w4 @ w5 @ w6,
          missing_report = isna_sum df6, date_for_month = dfm\<rparr>"
proof -
  note d = validate_and_normalize_def Let_def columns_strip_columns
  obtain df1 where s1: "parse_dates L recognized_date_cols (strip_columns raw) = Inr df1"
    using v m by (cases "parse_dates L recognized_date_cols (strip_columns raw)") (simp_all add: d)
  obtain df2 a where s2: "derive_age L df1 = Inr (df2, a)"
    using v m s1 by (cases "derive_age L df1") (auto simp add: d)
  obtain df3 w3 where s3: "normalize_sex L df2 = Inr (df3, w3)"
    using v m s1 s2 by (cases "normalize_sex L df2") (auto simp add: d)
  obtain df4 w4 where s4: "normalize_outcome L df3 = Inr (df4, w4)"
    using v m s1 s2 s3 by (cases "normalize_outcome L df3") (auto simp add: d)
  obtain df5 w5 where s5: "fill_diagnosis L df4 = Inr (df5, w5)"
    using v m s1 s2 s3 s4 by (cases "fill_diagnosis L df4") (auto simp add: d)
  obtain df6 w6 dfm where s6: "derive_month df5 = Inr (df6, w6, dfm)"
    using v m s1 s2 s3 s4 s5 by (cases "derive_month df5") (auto simp add: d)
  have "r = \<lparr>table = Some df6, errors = [],
          warnings = (if a = None then [age_warning] else []) @ w3 @ w4 @ w5 @ w6,
          missing_report = isna_sum df6, date_for_month = dfm\<rparr>"
    using v m s1 s2 s3 s4 s5 s6 by (simp add: d)
  with s1 s2 s3 s4 s5 s6 show thesis by (rule that)
qed

lemma validate_table:
  assumes "validate_and_normalize L raw = Inr r"
    and "list_ex (\<lambda>c. c \<in> set (map strip (columns raw))) minimal_candidates"
  shows "\<exists>df. table r = Some df"
  by (rule validate_stages [OF assms]) simp

lemma validate_errors:
  assumes "validate_and_normalize L raw = Inr r"
    and "list_ex (\<lambda>c. c \<in> set (map strip (columns raw))) minimal_candidates"
  shows "errors r = []"
  by (rule validate_stages [OF assms]) simp

lemma validate_table_minimal:
  assumes "validate_and_normalize L raw = Inr r" and "table r = Some df"
  shows "list_ex (\<lambda>c. c \<in> set (map strip (columns raw))) minimal_candidates"
proof (rule ccontr)
  assume "\<not> list_ex (\<lambda>c. c \<in> set (map strip (columns raw))) minimal_candidates"
  from validate_without_minimal [OF this, of L] assms show False by simp
qed

lemma validate_result:
  assumes "\<not> isl (validate_and_normalize L raw)"
  shows "\<exists>r. validate_and_normalize L raw = Inr r"
  using assms by (cases "validate_and_normalize L raw") simp_all

section \<open>The minimal columns\<close>

text \<open>
  C1 (as amended). A raw table that, once its labels are trimmed, has none of
  admission_date, outcome and primary_diagnosis gets no table and exactly one fatal error.
  With one of the three present the normalizer never returns a fatal error: whatever it
  returns holds a table and an empty error list. It does not always return: it can raise
  instead, as it does when two labels are equal once trimmed.
\<close>

theorem validate_minimal_columns:
  "(\<not> list_ex (\<lambda>c. c \<in> set (map strip (columns raw))) minimal_candidates \<longrightarrow>
      validate_and_normalize L raw =
        Inr \<lparr>table = None, errors = [minimal_error], warnings = [],
             missing_report = [], date_for_month = None\<rparr>)
   \<and> (list_ex (\<lambda>c. c \<in> set (map strip (columns raw))) minimal_candidates \<longrightarrow>
        (\<forall>r. validate_and_normalize L raw = Inr r \<longrightarrow> table r \<noteq> None \<and> errors r = []))"
proof (intro conjI impI allI)
  assume "\<not> list_ex (\<lambda>c. c \<in> set (map strip (columns raw))) minimal_candidates"
  then show "validate_and_normalize L raw =
        Inr \<lparr>table = None, errors = [minimal_error], warnings = [],
             missing_report = [], date_for_month = None\<rparr>"
    by (rule validate_without_minimal)
next
  fix r
  assume m: "list_ex (\<lambda>c. c \<in> set (map strip (columns raw))) minimal_candidates"
    and v: "validate_and_normalize L raw = Inr r"
  show "table r \<noteq> None"
    by (rule validate_stages [OF v m]) simp
next
  fix r
  assume m: "list_ex (\<lambda>c. c \<in> set (map strip (columns raw))) minimal_candidates"
    and v: "validate_and_normalize L raw = Inr r"
  show "errors r = []"
    by (rule validate_stages [OF v m]) simp
qed

text \<open>
  The witness has the label outcome between a space and a no-break space (U+00A0), and a
  table with the single label ward.
\<close>

theorem validate_minimal_columns_witness:
  "list_ex (\<lambda>c. c \<in> set (map strip (columns
        \<lparr>nrows = 1, cols = [('' outcome'' @ [CHR 0xC2, CHR 0xA0], [Str ''Dead''])]\<rparr>)))
      minimal_candidates
   \<and> (\<exists>r. validate_and_normalize csv_lib
        \<lparr>nrows = 1, cols = [('' outcome'' @ [CHR 0xC2, CHR 0xA0], [Str ''Dead''])]\<rparr> = Inr r
          \<and> table r \<noteq> None \<and> errors r = [])
   \<and> \<not> list_ex (\<lambda>c. c \<in> set (map strip (columns \<lparr>nrows = 1, cols = [(''ward'', [Str ''NBU''])]\<rparr>)))
        minimal_candidates
   \<and> validate_and_normalize csv_lib \<lparr>nrows = 1, cols = [(''ward'', [Str ''NBU''])]\<rparr> =
        Inr \<lparr>table = None, errors = [minimal_error], warnings = [],
             missing_report = [], date_for_month = None\<rparr>"
proof -
  let ?a = "\<lparr>nrows = 1, cols = [('' outcome'' @ [CHR 0xC2, CHR 0xA0], [Str ''Dead''])]\<rparr>"
  let ?b = "\<lparr>nrows = 1, cols = [(''ward'', [Str ''NBU''])]\<rparr>"
  have h1: "list_ex (\<lambda>c. c \<in> set (map strip (columns ?a))) minimal_candidates"
    by code_simp
  have h2: "\<not> isl (validate_and_normalize csv_lib ?a)"
    by code_simp
  have h3: "\<not> list_ex (\<lambda>c. c \<in> set (map strip (columns ?b))) minimal_candidates"
    by code_simp
  from validate_result [OF h2]
  obtain r where r: "validate_and_normalize csv_lib ?a = Inr r" ..
  with validate_minimal_columns [of ?a csv_lib] h1
  have "table r \<noteq> None \<and> errors r = []" by blast
  with r have e: "\<exists>r. validate_and_normalize csv_lib ?a = Inr r \<and> table r \<noteq> None \<and> errors r = []"
    by blast
  from validate_minimal_columns [of ?b csv_lib] h3
  have n: "validate_and_normalize csv_lib ?b =
        Inr \<lparr>table = None, errors = [minimal_error], warnings = [],
             missing_report = [], date_for_month = None\<rparr>" by blast
  from h1 e h3 n show ?thesis by (intro conjI)
qed

text \<open>
  Two labels that are equal once trimmed: \<open>df["outcome"]\<close> is then a table without
  \<open>.str\<close>, and the normalizer raises although a minimal column is present.
\<close>

theorem validate_repeated_label_counterexample:
  "''outcome'' \<in> set (map strip (columns \<lparr>nrows = 1, cols = [('' outcome'', [Str ''Dead'']), (''outcome'', [Str ''Dead''])]\<rparr>))
   \<and> ''outcome'' \<in> set minimal_candidates
   \<and> validate_and_normalize csv_lib
        \<lparr>nrows = 1, cols = [('' outcome'', [Str ''Dead'']), (''outcome'', [Str ''Dead''])]\<rparr>
       = Inl (NotASeries ''outcome'')"
  by code_simp

section \<open>The normalized outcome\<close>

text \<open>
  C2 (as amended). The outcomes DEAD, alive and deceased are normalized to Dead, Alive
  and Dead: deceased begins with d and so is recognised as Dead. For every ASCII text,
  trimmed and lower-cased to x: with dead in x or d at its start the outcome is Dead;
  otherwise, with alive in x or a at its start, it is Alive; otherwise it is x
  title-cased.
\<close>

theorem outcome_three_rows:
  "result_column L \<lparr>nrows = 3, cols = [(''outcome'', [Str ''DEAD'', Str ''alive'', Str ''deceased''])]\<rparr>
     ''outcome_norm'' = Inr [Str ''Dead'', Str ''Alive'', Str ''Dead'']
   \<and> outcome_norm_of L (Str ''deceased'') = Inr (Str ''Dead'')
   \<and> (list_all (\<lambda>c. (of_char c :: nat) < 128) s \<longrightarrow>
        (contains (lower (strip s)) ''dead'' \<or> startswith (lower (strip s)) ''d'' \<longrightarrow>
           outcome_norm_of L (Str s) = Inr (Str ''Dead''))
      \<and> (\<not> (contains (lower (strip s)) ''dead'' \<or> startswith (lower (strip s)) ''d'')
           \<and> (contains (lower (strip s)) ''alive'' \<or> startswith (lower (strip s)) ''a'') \<longrightarrow>
           outcome_norm_of L (Str s) = Inr (Str ''Alive''))
      \<and> (\<not> (contains (lower (strip s)) ''dead'' \<or> startswith (lower (strip s)) ''d'')
           \<and> \<not> (contains (lower (strip s)) ''alive'' \<or> startswith (lower (strip s)) ''a'') \<longrightarrow>
           outcome_norm_of L (Str s) = Inr (Str (title (lower (strip s))))))"
proof -
  have a: "result_column L \<lparr>nrows = 3, cols = [(''outcome'', [Str ''DEAD'', Str ''alive'', Str ''deceased''])]\<rparr>
     ''outcome_norm'' = Inr [Str ''Dead'', Str ''Alive'', Str ''Dead'']"
    by code_simp
  have b: "outcome_norm_of L (Str ''deceased'') = Inr (Str ''Dead'')"
    by code_simp
  have c: "outcome_norm_of L (Str s) =
      Inr (Str (if contains (lower (strip s)) ''dead'' \<or> startswith (lower (strip s)) ''d'' then ''Dead''
                else if contains (lower (strip s)) ''alive'' \<or> startswith (lower (strip s)) ''a''
                then ''Alive'' else title (lower (strip s))))"
    by (simp add: outcome_norm_of_def outcome_lambda_def astype_str_def str_map_def)
  from a b show ?thesis unfolding c by simp
qed

theorem outcome_three_rows_witness:
  "list_all (\<lambda>c. (of_char c :: nat) < 128) ''Referred out''
   \<and> \<not> (contains (lower (strip ''Referred out'')) ''dead'' \<or> startswith (lower (strip ''Referred out'')) ''d'')
   \<and> \<not> (contains (lower (strip ''Referred out'')) ''alive'' \<or> startswith (lower (strip ''Referred out'')) ''a'')
   \<and> outcome_norm_of csv_lib (Str ''Referred out'') = Inr (Str ''Referred Out'')
   \<and> list_all (\<lambda>c. (of_char c :: nat) < 128) '' Discharged ''
   \<and> outcome_norm_of csv_lib (Str '' Discharged '') = Inr (Str ''Dead'')"
proof -
  have h1: "list_all (\<lambda>c. (of_char c :: nat) < 128) ''Referred out''" by code_simp
  have h2: "\<not> (contains (lower (strip ''Referred out'')) ''dead'' \<or> startswith (lower (strip ''Referred out'')) ''d'')"
    by code_simp
  have h3: "\<not> (contains (lower (strip ''Referred out'')) ''alive'' \<or> startswith (lower (strip ''Referred out'')) ''a'')"
    by code_simp
  have h4: "title (lower (strip ''Referred out'')) = ''Referred Out''" by code_simp
  have h5: "list_all (\<lambda>c. (of_char c :: nat) < 128) '' Discharged ''" by code_simp
  have h6: "contains (lower (strip '' Discharged '')) ''dead'' \<or> startswith (lower (strip '' Discharged '')) ''d''"
    by code_simp
  from outcome_three_rows [of csv_lib "''Referred out''"] h1 h2 h3 h4
  have r1: "outcome_norm_of csv_lib (Str ''Referred out'') = Inr (Str ''Referred Out'')"
    by simp
  from outcome_three_rows [of csv_lib "'' Discharged ''"] h5 h6
  have r2: "outcome_norm_of csv_lib (Str '' Discharged '') = Inr (Str ''Dead'')"
    by blast
  from h1 h2 h3 r1 h5 r2 show ?thesis by (intro conjI)
qed

text \<open>The third row is not normalized to Deceased.\<close>

theorem outcome_deceased_counterexample:
  "result_column csv_lib
     \<lparr>nrows = 3, cols = [(''outcome'', [Str ''DEAD'', Str ''alive'', Str ''deceased''])]\<rparr>
     ''outcome_norm'' \<noteq> Inr [Str ''Dead'', Str ''Alive'', Str ''Deceased'']"
  by code_simp

section \<open>The normalized fields\<close>

lemma updates_labelled: "updates T a b \<Longrightarrow> c \<notin> T \<Longrightarrow> labelled b c = labelled a c"
  by (simp add: updates_def)

lemma updates_columns_iff:
  "updates T a b \<Longrightarrow> c \<notin> T \<Longrightarrow> c \<in> set (columns b) \<longleftrightarrow> c \<in> set (columns a)"
  unfolding updates_def by blast

lemma updates_columns_mono: "updates T a b \<Longrightarrow> c \<in> set (columns a) \<Longrightarrow> c \<in> set (columns b)"
  unfolding updates_def by blast

lemma updates_wf: "updates T a b \<Longrightarrow> wf_frame a \<Longrightarrow> wf_frame b \<and> nrows b = nrows a"
  by (simp add: updates_def)

lemma getcol_cong_labelled: "labelled a c = labelled b c \<Longrightarrow> getcol a c = getcol b c"
  by (simp add: getcol_labelled)

lemma labelled_setcol_mem: "ys \<in> set (labelled (setcol df c xs) c) \<Longrightarrow> ys = xs"
  by (auto simp: labelled_setcol_same split: if_splits)

lemma setcol_column: "c \<in> set (columns (setcol df c xs))"
  by (simp add: columns_setcol)

lemma setconst_column: "c \<in> set (columns (setconst df c v))"
  by (simp add: setconst_def setcol_column)

lemma labelled_setconst_mem: "ys \<in> set (labelled (setconst df c v) c) \<Longrightarrow> ys = replicate (nrows df) v"
  unfolding setconst_def by (rule labelled_setcol_mem)

lemma col_exists_any_cong:
  "(\<And>n. n \<in> set ns \<Longrightarrow> n \<in> set (columns a) \<longleftrightarrow> n \<in> set (columns b)) \<Longrightarrow>
     col_exists_any a ns = col_exists_any b ns"
  by (induction ns) auto

lemma collect_map_mem:
  assumes "collect (map f ys) = Inr zs" and "z \<in> set zs"
  obtains y where "f y = Inr z"
proof -
  from assms(1) have "map f ys = map Inr zs" by (rule collect_Inr_D)
  moreover from assms(2) have "Inr z \<in> set (map Inr zs)" by simp
  ultimately have "Inr z \<in> set (map f ys)" by simp
  then obtain y where "f y = Inr z" by auto
  then show thesis by (rule that)
qed

lemma sex_norm_of_values:
  "sex_norm_of L c = Str ''M'' \<or> sex_norm_of L c = Str ''F'' \<or> sex_norm_of L c = Str ''Unknown''"
  by (simp add: sex_norm_of_def Let_def)

lemma outcome_lambda_is_str: "outcome_lambda c = Inr y \<Longrightarrow> is_str y"
  by (cases c) (auto simp: outcome_lambda_def is_str_def)

lemma normalize_sex_column:
  assumes "normalize_sex L df = Inr (df', w)"
  shows "''sex_norm'' \<in> set (columns df')"
    and "xs \<in> set (labelled df' ''sex_norm'') \<Longrightarrow>
           list_all (\<lambda>c. c = Str ''M'' \<or> c = Str ''F'' \<or> c = Str ''Unknown'') xs"
proof -
  show "''sex_norm'' \<in> set (columns df')"
    using assms unfolding normalize_sex_def
    by (auto simp: setcol_column setconst_column split: if_splits sum.splits)
  assume x: "xs \<in> set (labelled df' ''sex_norm'')"
  show "list_all (\<lambda>c. c = Str ''M'' \<or> c = Str ''F'' \<or> c = Str ''Unknown'') xs"
  proof (cases "''sex'' \<in> set (columns df)")
    case True
    with assms obtain ys where "df' = setcol df ''sex_norm'' (map (sex_norm_of L) ys)"
      unfolding normalize_sex_def by (auto split: sum.splits)
    with x have "xs = map (sex_norm_of L) ys" by (simp add: labelled_setcol_mem)
    then show ?thesis using sex_norm_of_values by (auto simp: list_all_iff)
  next
    case False
    with assms have "df' = setconst df ''sex_norm'' (Str ''Unknown'')"
      unfolding normalize_sex_def by simp
    with x have "xs = replicate (nrows df) (Str ''Unknown'')" by (simp add: labelled_setconst_mem)
    then show ?thesis by (simp add: list_all_iff)
  qed
qed

lemma normalize_outcome_column:
  assumes "normalize_outcome L df = Inr (df', w)"
  shows "''outcome_norm'' \<in> set (columns df')"
    and "''outcome'' \<in> set (columns df) \<Longrightarrow> xs \<in> set (labelled df' ''outcome_norm'') \<Longrightarrow>
           list_all is_str xs"
    and "''outcome'' \<notin> set (columns df) \<Longrightarrow> xs \<in> set (labelled df' ''outcome_norm'') \<Longrightarrow>
           list_all isna xs"
proof -
  show "''outcome_norm'' \<in> set (columns df')"
    using assms unfolding normalize_outcome_def
    by (auto simp: setcol_column setconst_column split: if_splits sum.splits)
next
  assume p: "''outcome'' \<in> set (columns df)" and x: "xs \<in> set (labelled df' ''outcome_norm'')"
  from p assms obtain ys zs where c: "collect (map (outcome_norm_of L) ys) = Inr zs"
    and d: "df' = setcol df ''outcome_norm'' zs"
    unfolding normalize_outcome_def by (auto split: sum.splits)
  from d x have e: "xs = zs" by (simp add: labelled_setcol_mem)
  show "list_all is_str xs"
    unfolding e list_all_iff
  proof
    fix z
    assume "z \<in> set zs"
    with c obtain y where "outcome_norm_of L y = Inr z" by (rule collect_map_mem)
    then show "is_str z" unfolding outcome_norm_of_def by (rule outcome_lambda_is_str)
  qed
next
  assume p: "''outcome'' \<notin> set (columns df)" and x: "xs \<in> set (labelled df' ''outcome_norm'')"
  from p assms have "df' = setconst df ''outcome_norm'' NA"
    unfolding normalize_outcome_def by simp
  with x have "xs = replicate (nrows df) NA" by (simp add: labelled_setconst_mem)
  then show "list_all isna xs" by (simp add: list_all_iff isna_def)
qed

lemma fill_diagnosis_column:
  assumes "fill_diagnosis L df = Inr (df', w)"
  shows "''primary_diagnosis'' \<in> set (columns df')"
    and "''primary_diagnosis'' \<notin> set (columns df) \<Longrightarrow>
         col_exists_any df [''diagnosis'', ''dx'', ''primary_dx''] = None \<Longrightarrow>
         xs \<in> set (labelled df' ''primary_diagnosis'') \<Longrightarrow> xs = replicate (nrows df) (Str ''UNKNOWN'')"
    and "''primary_diagnosis'' \<notin> set (columns df) \<Longrightarrow>
         col_exists_any df [''diagnosis'', ''dx'', ''primary_dx''] = Some alt \<Longrightarrow>
         xs \<in> set (labelled df' ''primary_diagnosis'') \<Longrightarrow>
           \<exists>ys. getcol df alt = Inr ys \<and> xs = map (astype_str L) ys"
    and "''primary_diagnosis'' \<in> set (columns df) \<Longrightarrow> df' = df"
proof -
  show "''primary_diagnosis'' \<in> set (columns df')"
    using assms unfolding fill_diagnosis_def
    by (auto simp: setcol_column setconst_column split: if_splits sum.splits option.splits)
next
  assume p: "''primary_diagnosis'' \<notin> set (columns df)"
    and n: "col_exists_any df [''diagnosis'', ''dx'', ''primary_dx''] = None"
    and x: "xs \<in> set (labelled df' ''primary_diagnosis'')"
  from p n assms have "df' = setconst df ''primary_diagnosis'' (Str ''UNKNOWN'')"
    unfolding fill_diagnosis_def by simp
  with x show "xs = replicate (nrows df) (Str ''UNKNOWN'')" by (simp add: labelled_setconst_mem)
next
  assume p: "''primary_diagnosis'' \<notin> set (columns df)"
    and n: "col_exists_any df [''diagnosis'', ''dx'', ''primary_dx''] = Some alt"
    and x: "xs \<in> set (labelled df' ''primary_diagnosis'')"
  from p n assms obtain ys where g: "getcol df alt = Inr ys"
    and d: "df' = setcol df ''primary_diagnosis'' (map (astype_str L) ys)"
    unfolding fill_diagnosis_def by (auto split: sum.splits)
  from d x have "xs = map (astype_str L) ys" by (simp add: labelled_setcol_mem)
  with g show "\<exists>ys. getcol df alt = Inr ys \<and> xs = map (astype_str L) ys" by blast
next
  assume "''primary_diagnosis'' \<in> set (columns df)"
  with assms show "df' = df" unfolding fill_diagnosis_def by simp
qed

lemma set_recognized_date_cols:
  "set recognized_date_cols = {''admission_date'', ''discharge_date'', ''death_date''}"
  by (simp add: recognized_date_cols_def)

lemma astype_str_cases: "is_str (astype_str L c) \<or> (isna (astype_str L c) \<and> c = NA \<and> \<not> na_as_text L)"
  by (cases c) (simp_all add: astype_str_def is_str_def isna_def)


text \<open>
  C4 (as amended). In every table the normalizer returns, each record has sex_norm set to
  M, F or Unknown, also without a sex column. outcome_norm is a text in each record when
  the raw table has an outcome column, and the missing value in each record when it has
  none. Without a primary_diagnosis column in the raw table, primary_diagnosis is UNKNOWN
  in each record when there is no alias column, and otherwise what \<open>astype(str)\<close> makes
  of the cells of the first alias column: a text, except that a missing cell stays missing
  where the library does not turn it into text. A primary_diagnosis column of the raw table
  is kept as it is, missing cells included. A well-formed raw table gives a well-formed
  table with the same rows.
\<close>

theorem normalized_fields:
  assumes "validate_and_normalize L raw = Inr r" and "table r = Some df"
  shows "''sex_norm'' \<in> set (columns df) \<and> ''outcome_norm'' \<in> set (columns df)
       \<and> ''primary_diagnosis'' \<in> set (columns df)
       \<and> (\<forall>xs \<in> set (labelled df ''sex_norm'').
             list_all (\<lambda>c. c = Str ''M'' \<or> c = Str ''F'' \<or> c = Str ''Unknown'') xs)
       \<and> (''outcome'' \<in> set (map strip (columns raw)) \<longrightarrow>
             (\<forall>xs \<in> set (labelled df ''outcome_norm''). list_all is_str xs))
       \<and> (''outcome'' \<notin> set (map strip (columns raw)) \<longrightarrow>
             (\<forall>xs \<in> set (labelled df ''outcome_norm''). list_all isna xs))
       \<and> (''primary_diagnosis'' \<notin> set (map strip (columns raw)) \<longrightarrow>
             (\<forall>xs \<in> set (labelled df ''primary_diagnosis'').
                (case col_exists_any (strip_columns raw) [''diagnosis'', ''dx'', ''primary_dx''] of
                   None \<Rightarrow> xs = replicate (nrows raw) (Str ''UNKNOWN'')
                 | Some alt \<Rightarrow>
                     (\<exists>ys. getcol (strip_columns raw) alt = Inr ys \<and> xs = map (astype_str L) ys)
                     \<and> list_all (\<lambda>c. is_str c \<or> (isna c \<and> \<not> na_as_text L)) xs)))
       \<and> (''primary_diagnosis'' \<in> set (map strip (columns raw)) \<longrightarrow>
             labelled df ''primary_diagnosis'' = labelled (strip_columns raw) ''primary_diagnosis'')
       \<and> (wf_frame raw \<longrightarrow> wf_frame df \<and> nrows df = nrows raw)"
proof -
  let ?df0 = "strip_columns raw"
  let ?al = "[''diagnosis'', ''dx'', ''primary_dx'']"
  from assms have m: "list_ex (\<lambda>c. c \<in> set (map strip (columns raw))) minimal_candidates"
    by (rule validate_table_minimal)
  from assms(1) m obtain df1 df2 a df3 w3 df4 w4 df5 w5 df6 w6 dfm where
    s1: "parse_dates L recognized_date_cols ?df0 = Inr df1" and
    s2: "derive_age L df1 = Inr (df2, a)" and
    s3: "normalize_sex L df2 = Inr (df3, w3)" and
    s4: "normalize_outcome L df3 = Inr (df4, w4)" and
    s5: "fill_diagnosis L df4 = Inr (df5, w5)" and
    s6: "derive_month df5 = Inr (df6, w6, dfm)" and
    r: "r = \<lparr>table = Some df6, errors = [],
          warnings = (if a = None then [age_warning] else []) @ w3 @ w4 @ w5 @ w6,
          missing_report = isna_sum df6, date_for_month = dfm\<rparr>"
    by (rule validate_stages)
  from r assms(2) have df: "df = df6" by simp
  note u1 = parse_dates_updates [OF s1, unfolded set_recognized_date_cols]
  note u2 = derive_age_updates [OF s2]
  note u3 = normalize_sex_updates [OF s3]
  note u4 = normalize_outcome_updates [OF s4]
  note u5 = fill_diagnosis_updates [OF s5]
  note u6 = derive_month_updates [OF s6]
  have c0: "columns ?df0 = map strip (columns raw)" by (rule columns_strip_columns)
  \<comment> \<open>a label that no stage before the diagnosis stores\<close>
  have in4: "c \<in> {''primary_diagnosis'', ''diagnosis'', ''dx'', ''primary_dx''} \<Longrightarrow>
      (c \<in> set (columns df4) \<longleftrightarrow> c \<in> set (columns ?df0))" for c
    using updates_columns_iff [OF u4, of c] updates_columns_iff [OF u3, of c]
      updates_columns_iff [OF u2, of c] updates_columns_iff [OF u1, of c] by auto
  have l4: "c \<in> {''primary_diagnosis'', ''diagnosis'', ''dx'', ''primary_dx''} \<Longrightarrow>
      labelled df4 c = labelled ?df0 c" for c
    using updates_labelled [OF u4, of c] updates_labelled [OF u3, of c]
      updates_labelled [OF u2, of c] updates_labelled [OF u1, of c] by auto
  have g4: "c \<in> {''primary_diagnosis'', ''diagnosis'', ''dx'', ''primary_dx''} \<Longrightarrow>
      getcol df4 c = getcol ?df0 c" for c
    by (rule getcol_cong_labelled) (rule l4)
  \<comment> \<open>rows\<close>
  have wfn: "wf_frame raw \<Longrightarrow> wf_frame df6 \<and> nrows df6 = nrows raw"
  proof -
    assume "wf_frame raw"
    then have w0: "wf_frame ?df0" by (rule wf_strip_columns)
    from updates_wf [OF u1 w0] have w1: "wf_frame df1" and n1: "nrows df1 = nrows raw" by simp_all
    from updates_wf [OF u2 w1] n1 have w2: "wf_frame df2" and n2: "nrows df2 = nrows raw" by simp_all
    from updates_wf [OF u3 w2] n2 have w3: "wf_frame df3" and n3: "nrows df3 = nrows raw" by simp_all
    from updates_wf [OF u4 w3] n3 have w4: "wf_frame df4" and n4: "nrows df4 = nrows raw" by simp_all
    from updates_wf [OF u5 w4] n4 have w5: "wf_frame df5" and n5: "nrows df5 = nrows raw" by simp_all
    from updates_wf [OF u6 w5] n5 show "wf_frame df6 \<and> nrows df6 = nrows raw" by simp
  qed
  have n4: "nrows df4 = nrows raw"
    using u1 u2 u3 u4 by (simp add: updates_def)
  \<comment> \<open>sex_norm\<close>
  have sex_l: "labelled df6 ''sex_norm'' = labelled df3 ''sex_norm''"
    using updates_labelled [OF u6, of "''sex_norm''"] updates_labelled [OF u5, of "''sex_norm''"]
      updates_labelled [OF u4, of "''sex_norm''"] by simp
  have sex_c: "''sex_norm'' \<in> set (columns df6)"
    using normalize_sex_column(1) [OF s3] updates_columns_mono [OF u4]
      updates_columns_mono [OF u5] updates_columns_mono [OF u6] by blast
  have sex_v: "\<forall>xs \<in> set (labelled df6 ''sex_norm'').
             list_all (\<lambda>c. c = Str ''M'' \<or> c = Str ''F'' \<or> c = Str ''Unknown'') xs"
    using normalize_sex_column(2) [OF s3] sex_l by simp
  \<comment> \<open>outcome_norm\<close>
  have out_l: "labelled df6 ''outcome_norm'' = labelled df4 ''outcome_norm''"
    using updates_labelled [OF u6, of "''outcome_norm''"]
      updates_labelled [OF u5, of "''outcome_norm''"] by simp
  have out_c: "''outcome_norm'' \<in> set (columns df6)"
    using normalize_outcome_column(1) [OF s4] updates_columns_mono [OF u5]
      updates_columns_mono [OF u6] by blast
  have out_i: "''outcome'' \<in> set (columns df3) \<longleftrightarrow> ''outcome'' \<in> set (map strip (columns raw))"
    using updates_columns_iff [OF u3, of "''outcome''"] updates_columns_iff [OF u2, of "''outcome''"]
      updates_columns_iff [OF u1, of "''outcome''"] c0 by simp
  have out_s: "''outcome'' \<in> set (map strip (columns raw)) \<longrightarrow>
             (\<forall>xs \<in> set (labelled df6 ''outcome_norm''). list_all is_str xs)"
    using normalize_outcome_column(2) [OF s4] out_i out_l by simp
  have out_n: "''outcome'' \<notin> set (map strip (columns raw)) \<longrightarrow>
             (\<forall>xs \<in> set (labelled df6 ''outcome_norm''). list_all isna xs)"
    using normalize_outcome_column(3) [OF s4] out_i out_l by simp
  \<comment> \<open>primary_diagnosis\<close>
  have dx_l: "labelled df6 ''primary_diagnosis'' = labelled df5 ''primary_diagnosis''"
    using updates_labelled [OF u6, of "''primary_diagnosis''"] by simp
  have dx_c: "''primary_diagnosis'' \<in> set (columns df6)"
    using fill_diagnosis_column(1) [OF s5] updates_columns_mono [OF u6] by blast
  have dx_i: "''primary_diagnosis'' \<in> set (columns df4)
                \<longleftrightarrow> ''primary_diagnosis'' \<in> set (map strip (columns raw))"
    using in4 [of "''primary_diagnosis''"] c0 by simp
  have al: "col_exists_any df4 ?al = col_exists_any ?df0 ?al"
    by (rule col_exists_any_cong) (use in4 in auto)
  have dx_s: "''primary_diagnosis'' \<notin> set (map strip (columns raw)) \<longrightarrow>
             (\<forall>xs \<in> set (labelled df6 ''primary_diagnosis'').
                (case col_exists_any ?df0 ?al of
                   None \<Rightarrow> xs = replicate (nrows raw) (Str ''UNKNOWN'')
                 | Some alt \<Rightarrow>
                     (\<exists>ys. getcol ?df0 alt = Inr ys \<and> xs = map (astype_str L) ys)
                     \<and> list_all (\<lambda>c. is_str c \<or> (isna c \<and> \<not> na_as_text L)) xs))"
  proof (intro impI ballI)
    fix xs
    assume p: "''primary_diagnosis'' \<notin> set (map strip (columns raw))"
      and x: "xs \<in> set (labelled df6 ''primary_diagnosis'')"
    from p dx_i have p4: "''primary_diagnosis'' \<notin> set (columns df4)" by simp
    from x dx_l have x5: "xs \<in> set (labelled df5 ''primary_diagnosis'')" by simp
    show "case col_exists_any ?df0 ?al of
            None \<Rightarrow> xs = replicate (nrows raw) (Str ''UNKNOWN'')
          | Some alt \<Rightarrow>
              (\<exists>ys. getcol ?df0 alt = Inr ys \<and> xs = map (astype_str L) ys)
              \<and> list_all (\<lambda>c. is_str c \<or> (isna c \<and> \<not> na_as_text L)) xs"
    proof (cases "col_exists_any ?df0 ?al")
      case None
      with al have "col_exists_any df4 ?al = None" by simp
      from fill_diagnosis_column(2) [OF s5 p4 this x5] n4 None show ?thesis by simp
    next
      case (Some alt)
      with al have a4: "col_exists_any df4 ?al = Some alt" by simp
      then have "alt \<in> set ?al" by (auto split: if_splits)
      then have g: "getcol df4 alt = getcol ?df0 alt" using g4 [of alt] by auto
      from fill_diagnosis_column(3) [OF s5 p4 a4 x5] obtain ys
        where y: "getcol df4 alt = Inr ys" and e: "xs = map (astype_str L) ys" by blast
      have "list_all (\<lambda>c. is_str c \<or> (isna c \<and> \<not> na_as_text L)) xs"
        unfolding e list_all_iff using astype_str_cases [of L] by auto
      with y e g Some show ?thesis by simp
    qed
  qed
  have dx_k: "''primary_diagnosis'' \<in> set (map strip (columns raw)) \<longrightarrow>
             labelled df6 ''primary_diagnosis'' = labelled ?df0 ''primary_diagnosis''"
    using fill_diagnosis_column(4) [OF s5] dx_i dx_l l4 [of "''primary_diagnosis''"] by simp
  have wf: "wf_frame raw \<longrightarrow> wf_frame df6 \<and> nrows df6 = nrows raw"
    using wfn by blast
  from sex_c out_c dx_c sex_v out_s out_n dx_s dx_k wf show ?thesis
    unfolding df by (intro conjI)
qed

theorem normalized_fields_witness:
  "\<exists>r df. validate_and_normalize csv_lib
              \<lparr>nrows = 2, cols = [(''outcome'' @ [CHR 0xC2, CHR 0xA0], [Str ''Dead'', NA]),
                                  (''dx'', [Str ''Sepsis'', NA])]\<rparr> = Inr r
     \<and> table r = Some df
     \<and> ''outcome'' \<in> set (map strip (columns
           \<lparr>nrows = 2, cols = [(''outcome'' @ [CHR 0xC2, CHR 0xA0], [Str ''Dead'', NA]),
                               (''dx'', [Str ''Sepsis'', NA])]\<rparr>))
     \<and> ''primary_diagnosis'' \<notin> set (map strip (columns
           \<lparr>nrows = 2, cols = [(''outcome'' @ [CHR 0xC2, CHR 0xA0], [Str ''Dead'', NA]),
                               (''dx'', [Str ''Sepsis'', NA])]\<rparr>))
     \<and> ''sex_norm'' \<in> set (columns df) \<and> ''outcome_norm'' \<in> set (columns df)
     \<and> ''primary_diagnosis'' \<in> set (columns df)
     \<and> (\<forall>xs \<in> set (labelled df ''sex_norm'').
           list_all (\<lambda>c. c = Str ''M'' \<or> c = Str ''F'' \<or> c = Str ''Unknown'') xs)
     \<and> (\<forall>xs \<in> set (labelled df ''outcome_norm''). list_all is_str xs)
     \<and> (\<forall>xs \<in> set (labelled df ''primary_diagnosis''). xs = [Str ''Sepsis'', Str ''nan''])
     \<and> wf_frame df \<and> nrows df = 2"
proof -
  let ?raw = "\<lparr>nrows = 2, cols = [(''outcome'' @ [CHR 0xC2, CHR 0xA0], [Str ''Dead'', NA]),
                                  (''dx'', [Str ''Sepsis'', NA])]\<rparr>"
  have v: "\<not> isl (validate_and_normalize csv_lib ?raw)" by code_simp
  have m: "list_ex (\<lambda>c. c \<in> set (map strip (columns ?raw))) minimal_candidates" by code_simp
  have w: "wf_frame ?raw" by code_simp
  have o: "''outcome'' \<in> set (map strip (columns ?raw))" by code_simp
  have p: "''primary_diagnosis'' \<notin> set (map strip (columns ?raw))" by code_simp
  have a: "col_exists_any (strip_columns ?raw) [''diagnosis'', ''dx'', ''primary_dx''] = Some ''dx''"
    by code_simp
  have g: "getcol (strip_columns ?raw) ''dx'' = Inr [Str ''Sepsis'', NA]" by code_simp
  have t: "map (astype_str csv_lib) [Str ''Sepsis'', NA] = [Str ''Sepsis'', Str ''nan'']"
    by code_simp
  from validate_result [OF v]
  obtain r where r: "validate_and_normalize csv_lib ?raw = Inr r" ..
  from validate_table [OF r m] obtain df where d: "table r = Some df" ..
  note n = normalized_fields [OF r d]
  from n p a g t have dx: "\<forall>xs \<in> set (labelled df ''primary_diagnosis''). xs = [Str ''Sepsis'', Str ''nan'']"
    by auto
  from n o have out: "\<forall>xs \<in> set (labelled df ''outcome_norm''). list_all is_str xs"
    by blast
  from n w have rows: "wf_frame df \<and> nrows df = 2" by simp
  from n have rest: "''sex_norm'' \<in> set (columns df) \<and> ''outcome_norm'' \<in> set (columns df)
     \<and> ''primary_diagnosis'' \<in> set (columns df)
     \<and> (\<forall>xs \<in> set (labelled df ''sex_norm'').
           list_all (\<lambda>c. c = Str ''M'' \<or> c = Str ''F'' \<or> c = Str ''Unknown'') xs)"
    by blast
  from r d o p rest out dx rows show ?thesis by blast
qed

text \<open>
  A raw table with an admission date and no outcome column passes the minimal check, and
  the outcome_norm of its record is the missing value.
\<close>

theorem outcome_norm_missing_counterexample:
  "result_column csv_lib \<lparr>nrows = 1, cols = [(''admission_date'', [Str ''2025-09-01''])]\<rparr>
     ''outcome_norm'' = Inr [NA] \<and> isna NA"
  by code_simp

section \<open>The sample\<close>

lemma sample_csv_text:
  "make_sample_csv_bytes (csv_lib\<lparr>na_as_text := b\<rparr>) =
     ''patient_id,initials,sex,age_days,ward,admission_date,discharge_date,outcome,death_date,primary_diagnosis,Notes,age_months''
     @ [CHR 0x0A]
     @ ''45991,J.M.M,M,10.0,NBU,2025-09-01,0000-00-00,Dead,2025-09-04,Neonatal Sepsis,SP puncture done,''
     @ [CHR 0x0A]
     @ ''46781,D.S.J,F,,Pediatrics,2025-09-02,2025-09-09,Alive,2025-09-04,Severe Pneumonia,Counseled on danger signs,10.0''
     @ [CHR 0x0A]"
  by code_simp

lemma sample_csv_read:
  "read_csv (csv_lib\<lparr>na_as_text := b\<rparr>)
     (''patient_id,initials,sex,age_days,ward,admission_date,discharge_date,outcome,death_date,primary_diagnosis,Notes,age_months''
     @ [CHR 0x0A]
     @ ''45991,J.M.M,M,10.0,NBU,2025-09-01,0000-00-00,Dead,2025-09-04,Neonatal Sepsis,SP puncture done,''
     @ [CHR 0x0A]
     @ ''46781,D.S.J,F,,Pediatrics,2025-09-02,2025-09-09,Alive,2025-09-04,Severe Pneumonia,Counseled on danger signs,10.0''
     @ [CHR 0x0A])
   = Inr \<lparr>nrows = 2,
          cols =
            [(''patient_id'', [Num 45991, Num 46781]),
             (''initials'', [Str ''J.M.M'', Str ''D.S.J'']),
             (''sex'', [Str ''M'', Str ''F'']),
             (''age_days'', [Num 10, NA]),
             (''ward'', [Str ''NBU'', Str ''Pediatrics'']),
             (''admission_date'', [Str ''2025-09-01'', Str ''2025-09-02'']),
             (''discharge_date'', [Str ''0000-00-00'', Str ''2025-09-09'']),
             (''outcome'', [Str ''Dead'', Str ''Alive'']),
             (''death_date'', [Str ''2025-09-04'', Str ''2025-09-04'']),
             (''primary_diagnosis'', [Str ''Neonatal Sepsis'', Str ''Severe Pneumonia'']),
             (''Notes'', [Str ''SP puncture done'', Str ''Counseled on danger signs'']),
             (''age_months'', [NA, Num 10])]\<rparr>"
  by code_simp

lemma sample_outcome_norm:
  "result_column (csv_lib\<lparr>na_as_text := b\<rparr>)
     \<lparr>nrows = 2,
      cols =
        [(''patient_id'', [Num 45991, Num 46781]),
         (''initials'', [Str ''J.M.M'', Str ''D.S.J'']),
         (''sex'', [Str ''M'', Str ''F'']),
         (''age_days'', [Num 10, NA]),
         (''ward'', [Str ''NBU'', Str ''Pediatrics'']),
         (''admission_date'', [Str ''2025-09-01'', Str ''2025-09-02'']),
         (''discharge_date'', [Str ''0000-00-00'', Str ''2025-09-09'']),
         (''outcome'', [Str ''Dead'', Str ''Alive'']),
         (''death_date'', [Str ''2025-09-04'', Str ''2025-09-04'']),
         (''primary_diagnosis'', [Str ''Neonatal Sepsis'', Str ''Severe Pneumonia'']),
         (''Notes'', [Str ''SP puncture done'', Str ''Counseled on danger signs'']),
         (''age_months'', [NA, Num 10])]\<rparr>
     ''outcome_norm'' = Inr [Str ''Dead'', Str ''Alive'']"
  by code_simp

text \<open>
  C9. The sample table written as CSV and read back is normalized without a fatal error,
  and of the two records of the normalized table exactly one has the outcome Dead and
  exactly one the outcome Alive, whichever way the library treats missing cells in
  \<open>astype(str)\<close>.
\<close>

theorem sample_round_trip:
  "\<exists>raw r df col.
       read_csv (csv_lib\<lparr>na_as_text := b\<rparr>) (make_sample_csv_bytes (csv_lib\<lparr>na_as_text := b\<rparr>)) = Inr raw
     \<and> validate_and_normalize (csv_lib\<lparr>na_as_text := b\<rparr>) raw = Inr r
     \<and> errors r = []
     \<and> table r = Some df
     \<and> getcol df ''outcome_norm'' = Inr col
     \<and> length col = 2
     \<and> length (filter (\<lambda>c. c = Str ''Dead'') col) = 1
     \<and> length (filter (\<lambda>c. c = Str ''Alive'') col) = 1"
proof -
  let ?raw = "\<lparr>nrows = 2,
      cols =
        [(''patient_id'', [Num 45991, Num 46781]),
         (''initials'', [Str ''J.M.M'', Str ''D.S.J'']),
         (''sex'', [Str ''M'', Str ''F'']),
         (''age_days'', [Num 10, NA]),
         (''ward'', [Str ''NBU'', Str ''Pediatrics'']),
         (''admission_date'', [Str ''2025-09-01'', Str ''2025-09-02'']),
         (''discharge_date'', [Str ''0000-00-00'', Str ''2025-09-09'']),
         (''outcome'', [Str ''Dead'', Str ''Alive'']),
         (''death_date'', [Str ''2025-09-04'', Str ''2025-09-04'']),
         (''primary_diagnosis'', [Str ''Neonatal Sepsis'', Str ''Severe Pneumonia'']),
         (''Notes'', [Str ''SP puncture done'', Str ''Counseled on danger signs'']),
         (''age_months'', [NA, Num 10])]\<rparr>"
  have rd: "read_csv (csv_lib\<lparr>na_as_text := b\<rparr>) (make_sample_csv_bytes (csv_lib\<lparr>na_as_text := b\<rparr>)) = Inr ?raw"
    by (simp only: sample_csv_text sample_csv_read)
  have d: "\<not> isl (validate_and_normalize (csv_lib\<lparr>na_as_text := b\<rparr>) ?raw)" by code_simp
  have m: "list_ex (\<lambda>c. c \<in> set (map strip (columns ?raw))) minimal_candidates" by code_simp
  from validate_result [OF d]
  obtain r where r: "validate_and_normalize (csv_lib\<lparr>na_as_text := b\<rparr>) ?raw = Inr r" ..
  from validate_table [OF r m] obtain df where t: "table r = Some df" ..
  from validate_errors [OF r m] have e: "errors r = []" .
  have c: "getcol df ''outcome_norm'' = Inr [Str ''Dead'', Str ''Alive'']"
    using sample_outcome_norm [of b] unfolding result_column_def r
    by (simp only: sum.case t option.case)
  have n: "length [Str ''Dead'', Str ''Alive''] = 2"
    "length (filter (\<lambda>c. c = Str ''Dead'') [Str ''Dead'', Str ''Alive'']) = 1"
    "length (filter (\<lambda>c. c = Str ''Alive'') [Str ''Dead'', Str ''Alive'']) = 1"
    by simp_all
  from rd r e t c n show ?thesis by blast
qed

section \<open>The monthly rate\<close>

text \<open>
  C3 (the code departs from the claim). An uploaded table with one admission in September
  2025, an empty patient\_id and the outcome Dead: the monthly summary of step 2 counts no
  admission and one death for the month and gives the rate as infinite, not 0; with the
  outcome Alive the rate is not a number. \<open>mortality_stats\<close> of step 3 does return 0 for
  no rows, and for 3 deaths in 10 admissions both give 30.
\<close>

theorem monthly_summary_zero_admissions:
  "step2 csv_lib
     (stored csv_lib \<lparr>nrows = 1, cols = [(''patient_id'', [NA]),
                                          (''admission_date'', [Str ''2025-09-01'']),
                                          (''outcome'', [Str ''Dead''])]\<rparr>) None
     = Shown [\<lparr>month_label = ''2025-09'', total_admissions = 0, total_deaths = 1,
               mortality_rate = PosInf\<rparr>]
   \<and> step2 csv_lib
     (stored csv_lib \<lparr>nrows = 1, cols = [(''patient_id'', [NA]),
                                          (''admission_date'', [Str ''2025-09-01'']),
                                          (''outcome'', [Str ''Alive''])]\<rparr>) None
     = Shown [\<lparr>month_label = ''2025-09'', total_admissions = 0, total_deaths = 0,
               mortality_rate = NaN\<rparr>]
   \<and> mortality_stats csv_lib [] = (0, 0, 0)
   \<and> mortality_stats csv_lib
        [True, True, True, False, False, False, False, False, False, False] = (10, 3, 30)
   \<and> percent_round2 csv_lib (div_counts csv_lib 3 10) = Finite 30"
  by code_simp

end
